theory Spec2Isabelle
  imports Main "HOL-Library.Log_Nat" "HOL-Library.Sublist"
begin

section \<open>Python values and exceptions\<close>

text \<open>
  The backend is a Flask application (\<^verbatim>\<open>src/app.py\<close>). Its request handlers catch every
  exception at the route boundary; inside, the helper functions raise. An exception is
  modelled as the left injection of a sum, the value returned as the right one.

  Strings are lists of 8-bit characters. Python strings hold code points; the model covers
  ASCII text, which is what times, tags and gender names are made of.
\<close>

datatype error =
    ValueError | IndexError | ZeroDivisionError | OverflowError

subsection \<open>\<^verbatim>\<open>str.split(':')\<close>\<close>

text \<open>Splitting never returns the empty list: a string without a colon is its own only field.\<close>

fun split_colon :: "string \<Rightarrow> string list" where
  "split_colon [] = [[]]"
| "split_colon (c # cs) =
     (if c = CHR '':'' then [] # split_colon cs
      else (case split_colon cs of
              [] \<Rightarrow> [[c]]
            | f # fs \<Rightarrow> (c # f) # fs))"

text \<open>List indexing with a non-negative index; out of range raises \<^verbatim>\<open>IndexError\<close>.\<close>

definition index :: "'a list \<Rightarrow> nat \<Rightarrow> error + 'a" where
  "index xs i = (if i < length xs then Inr (xs ! i) else Inl IndexError)"

subsection \<open>\<^verbatim>\<open>int(s)\<close> on a string\<close>

text \<open>
  On ASCII text, \<^verbatim>\<open>int\<close> skips the whitespace around the literal (the characters 9 to 13
  and the space; the separators 28 to 31, which \<^verbatim>\<open>str.strip\<close> would remove, are not
  skipped), reads an optional sign and then decimal digits, where single underscores may
  separate digits. Anything else raises \<^verbatim>\<open>ValueError\<close>, and so does a literal of more
  than 4300 digits (the default limit of the interpreter; leading zeros count, underscores
  do not).
\<close>

definition is_space :: "char \<Rightarrow> bool" where
  "is_space c = (let n = (of_char c :: nat) in (9 \<le> n \<and> n \<le> 13) \<or> n = 32)"

definition is_digit :: "char \<Rightarrow> bool" where
  "is_digit c = (let n = (of_char c :: nat) in 48 \<le> n \<and> n \<le> 57)"

definition digit_val :: "char \<Rightarrow> nat" where
  "digit_val c = (of_char c :: nat) - 48"

definition strip :: "string \<Rightarrow> string" where
  "strip s = rev (dropWhile is_space (rev (dropWhile is_space s)))"

definition max_str_digits :: nat where
  "max_str_digits = 4300"

text \<open>
  \<open>scan_digits cs acc prev\<close>: \<open>acc\<close> is the value read so far, \<open>prev\<close> tells whether the
  previous character was a digit (an underscore is accepted only between two digits).
\<close>

fun scan_digits :: "string \<Rightarrow> nat \<Rightarrow> bool \<Rightarrow> nat option" where
  "scan_digits [] acc prev = (if prev then Some acc else None)"
| "scan_digits (c # cs) acc prev =
     (if is_digit c then scan_digits cs (acc * 10 + digit_val c) True
      else if c = CHR ''_'' \<and> prev then scan_digits cs acc False
      else None)"

text \<open>The literal after the sign: its value, unless it is malformed or has too many digits.\<close>

definition literal_value :: "string \<Rightarrow> nat option" where
  "literal_value cs =
     (if length (filter is_digit cs) > max_str_digits then None else scan_digits cs 0 False)"

definition py_int :: "string \<Rightarrow> error + int" where
  "py_int s =
     (case strip s of
        [] \<Rightarrow> Inl ValueError
      | c # cs \<Rightarrow>
          if c = CHR ''-'' then
            (case literal_value cs of None \<Rightarrow> Inl ValueError | Some n \<Rightarrow> Inr (- int n))
          else if c = CHR ''+'' then
            (case literal_value cs of None \<Rightarrow> Inl ValueError | Some n \<Rightarrow> Inr (int n))
          else
            (case literal_value (c # cs) of None \<Rightarrow> Inl ValueError | Some n \<Rightarrow> Inr (int n)))"

text \<open>
  The model of \<^verbatim>\<open>int\<close> is exact on ASCII text. Outside ASCII Python also accepts other
  decimal digits and spaces, which a list of 8-bit characters cannot hold; what is stated
  about strings that do not parse is stated for ASCII strings.
\<close>

definition ascii :: "string \<Rightarrow> bool" where
  "ascii s = list_all (\<lambda>c. (of_char c :: nat) < 128) s"

subsection \<open>The format \<^verbatim>\<open>{n:02d}\<close>\<close>

fun dec :: "nat \<Rightarrow> string" where
  "dec n = (if n < 10 then [char_of (48 + n)] else dec (n div 10) @ [char_of (48 + n mod 10)])"

declare dec.simps [simp del]

text \<open>
  Zero padding to width two; the sign counts towards the width, so \<open>-1\<close> is printed as it is
  and a number of three digits is not shortened.
\<close>

definition fmt02d :: "int \<Rightarrow> string" where
  "fmt02d n =
     (if n < 0 then CHR ''-'' # dec (nat (- n))
      else if n < 10 then CHR ''0'' # dec (nat n)
      else dec (nat n))"

section \<open>The time-offset helper\<close>

text \<open>
  \<^verbatim>\<open>
  def calculate_time_offset(base_time, hour_offset, minute_offset):
      hour = int(base_time.split(':')[0]) + hour_offset
      minute = int(base_time.split(':')[1]) + minute_offset
      # Handle hour overflow
      while hour >= 24:
          hour -= 24
      while hour < 0:
          hour += 24
      # Handle minute overflow
      if minute >= 60:
          hour += 1
          minute -= 60
      if minute < 0:
          hour -= 1
          minute += 60
      return f"{hour:02d}:{minute:02d}"
  \<close>
  The two loops are recursive functions, each with its own measure.
\<close>

function hour_down :: "int \<Rightarrow> int" where
  "hour_down hour = (if hour \<ge> 24 then hour_down (hour - 24) else hour)"
  by pat_completeness auto
termination
  by (relation "measure (\<lambda>hour. nat hour)") auto

function hour_up :: "int \<Rightarrow> int" where
  "hour_up hour = (if hour < 0 then hour_up (hour + 24) else hour)"
  by pat_completeness auto
termination
  by (relation "measure (\<lambda>hour. nat (- hour))") auto

declare hour_down.simps [simp del] hour_up.simps [simp del]

definition minute_carry :: "int \<times> int \<Rightarrow> int \<times> int" where
  "minute_carry hm = (case hm of (hour, minute) \<Rightarrow>
     if minute \<ge> 60 then (hour + 1, minute - 60) else (hour, minute))"

definition minute_borrow :: "int \<times> int \<Rightarrow> int \<times> int" where
  "minute_borrow hm = (case hm of (hour, minute) \<Rightarrow>
     if minute < 0 then (hour - 1, minute + 60) else (hour, minute))"

definition hour_field :: "string \<Rightarrow> error + int" where
  "hour_field t = (case index (split_colon t) 0 of Inl e \<Rightarrow> Inl e | Inr f \<Rightarrow> py_int f)"

definition minute_field :: "string \<Rightarrow> error + int" where
  "minute_field t = (case index (split_colon t) 1 of Inl e \<Rightarrow> Inl e | Inr f \<Rightarrow> py_int f)"

definition calculate_time_offset :: "string \<Rightarrow> int \<Rightarrow> int \<Rightarrow> error + string" where
  "calculate_time_offset base_time hour_offset minute_offset =
     (case hour_field base_time of
        Inl e \<Rightarrow> Inl e
      | Inr h \<Rightarrow>
         (case minute_field base_time of
            Inl e \<Rightarrow> Inl e
          | Inr m \<Rightarrow>
             (let hour = hour_up (hour_down (h + hour_offset));
                  (hour, minute) = minute_borrow (minute_carry (hour, m + minute_offset))
              in Inr (fmt02d hour @ '':'' @ fmt02d minute))))"

section \<open>Numbers\<close>

text \<open>
  A number of the profile is a Python \<^verbatim>\<open>int\<close> (unbounded) or a \<^verbatim>\<open>float\<close>. A float is an
  IEEE 754 binary64 value: a finite value is given by the rational it denotes, and there are
  the two infinities and not-a-number. The two zeros are identified: no operation used
  here tells them apart.
\<close>

datatype pyfloat = Fin rat | PInf | NInf | NaN

datatype pynum = PInt int | PFloat pyfloat

subsection \<open>Rounding to binary64\<close>

text \<open>Round to the nearest integer, ties to the even one.\<close>

definition round_even :: "rat \<Rightarrow> int" where
  "round_even q =
     (let f = \<lfloor>q\<rfloor>; r = q - of_int f
      in if r < 1 / 2 then f
         else if 1 / 2 < r then f + 1
         else if even f then f else f + 1)"

text \<open>\<open>ilog2 a\<close> is the integer \<open>e\<close> with \<open>2\<^sup>e \<le> a < 2\<^sup>e\<^sup>+\<^sup>1\<close>, for \<open>a > 0\<close>.\<close>

definition ilog2 :: "rat \<Rightarrow> int" where
  "ilog2 a =
     (case quotient_of a of (n, d) \<Rightarrow>
        let k = bitlen n - bitlen d
        in if 2 powi k \<le> a then k else k - 1)"

text \<open>
  \<open>fl q\<close> is the float nearest to \<open>q\<close>: 53 significant bits, the least exponent of a
  normal number is \<open>-1022\<close> (below it the spacing stays \<open>2\<^sup>-\<^sup>1\<^sup>0\<^sup>7\<^sup>4\<close>), and a magnitude that
  rounds to \<open>2\<^sup>1\<^sup>0\<^sup>2\<^sup>4\<close> or more overflows.
\<close>

definition fl :: "rat \<Rightarrow> pyfloat" where
  "fl q =
     (if q = 0 then Fin 0
      else
        let a = \<bar>q\<bar>;
            u = max (ilog2 a) (- 1022) - 52;
            v = of_int (round_even (a / 2 powi u)) * 2 powi u
        in if 2 powi 1024 \<le> v then (if q < 0 then NInf else PInf)
           else Fin (if q < 0 then - v else v))"

subsection \<open>Operations on floats\<close>

definition is_neg :: "pyfloat \<Rightarrow> bool" where
  "is_neg x = (case x of Fin a \<Rightarrow> a < 0 | NInf \<Rightarrow> True | _ \<Rightarrow> False)"

definition inf_of :: "bool \<Rightarrow> pyfloat" where
  "inf_of negative = (if negative then NInf else PInf)"

definition fsub :: "pyfloat \<Rightarrow> pyfloat \<Rightarrow> pyfloat" where
  "fsub x y =
     (if x = NaN \<or> y = NaN then NaN
      else case (x, y) of
          (Fin a, Fin b) \<Rightarrow> fl (a - b)
        | (Fin a, PInf) \<Rightarrow> NInf
        | (Fin a, _) \<Rightarrow> PInf
        | (PInf, PInf) \<Rightarrow> NaN
        | (PInf, _) \<Rightarrow> PInf
        | (_, NInf) \<Rightarrow> NaN
        | (_, _) \<Rightarrow> NInf)"

definition fmul :: "pyfloat \<Rightarrow> pyfloat \<Rightarrow> pyfloat" where
  "fmul x y =
     (if x = NaN \<or> y = NaN then NaN
      else case (x, y) of
          (Fin a, Fin b) \<Rightarrow> fl (a * b)
        | _ \<Rightarrow> if x = Fin 0 \<or> y = Fin 0 then NaN else inf_of (is_neg x \<noteq> is_neg y))"

text \<open>Division by a divisor that is not zero (Python raises before dividing by zero).\<close>

definition fdiv :: "pyfloat \<Rightarrow> pyfloat \<Rightarrow> pyfloat" where
  "fdiv x y =
     (if x = NaN \<or> y = NaN then NaN
      else case (x, y) of
          (Fin a, Fin b) \<Rightarrow> fl (a / b)
        | (Fin a, _) \<Rightarrow> Fin 0
        | (_, Fin b) \<Rightarrow> inf_of (is_neg x \<noteq> is_neg y)
        | _ \<Rightarrow> NaN)"

text \<open>Comparison; every comparison with not-a-number is false.\<close>

definition flt :: "pyfloat \<Rightarrow> pyfloat \<Rightarrow> bool" where
  "flt x y =
     (case (x, y) of
        (Fin a, Fin b) \<Rightarrow> a < b
      | (NaN, _) \<Rightarrow> False
      | (_, NaN) \<Rightarrow> False
      | (NInf, y) \<Rightarrow> y \<noteq> NInf
      | (x, PInf) \<Rightarrow> x \<noteq> PInf
      | _ \<Rightarrow> False)"

definition fle :: "pyfloat \<Rightarrow> pyfloat \<Rightarrow> bool" where
  "fle x y = (x \<noteq> NaN \<and> y \<noteq> NaN \<and> (flt x y \<or> x = y))"

subsection \<open>Operations on numbers\<close>

text \<open>
  Converting an \<^verbatim>\<open>int\<close> to a float rounds correctly and raises \<^verbatim>\<open>OverflowError\<close> when the
  integer is too large.
\<close>

definition to_float :: "int \<Rightarrow> error + pyfloat" where
  "to_float n = (case fl (of_int n) of Fin r \<Rightarrow> Inr (Fin r) | _ \<Rightarrow> Inl OverflowError)"

definition as_float :: "pynum \<Rightarrow> error + pyfloat" where
  "as_float x = (case x of PInt n \<Rightarrow> to_float n | PFloat f \<Rightarrow> Inr f)"

text \<open>
  True division of two integers gives the float nearest to the exact quotient, and raises
  when the divisor is zero or the quotient too large for a float.
\<close>

definition int_truediv :: "int \<Rightarrow> int \<Rightarrow> error + pyfloat" where
  "int_truediv m n =
     (if n = 0 then Inl ZeroDivisionError
      else case fl (of_int m / of_int n) of Fin r \<Rightarrow> Inr (Fin r) | _ \<Rightarrow> Inl OverflowError)"

text \<open>The operators \<^verbatim>\<open>-\<close>, \<^verbatim>\<open>/\<close> and \<^verbatim>\<open>*\<close>: integer arithmetic on two integers (except
  \<^verbatim>\<open>/\<close>), float arithmetic as soon as one operand is a float.\<close>

definition py_sub :: "pynum \<Rightarrow> pynum \<Rightarrow> error + pynum" where
  "py_sub a b =
     (case (a, b) of
        (PInt m, PInt n) \<Rightarrow> Inr (PInt (m - n))
      | _ \<Rightarrow>
        (case as_float a of Inl e \<Rightarrow> Inl e | Inr x \<Rightarrow>
         (case as_float b of Inl e \<Rightarrow> Inl e | Inr y \<Rightarrow> Inr (PFloat (fsub x y)))))"

definition py_mul :: "pynum \<Rightarrow> pynum \<Rightarrow> error + pynum" where
  "py_mul a b =
     (case (a, b) of
        (PInt m, PInt n) \<Rightarrow> Inr (PInt (m * n))
      | _ \<Rightarrow>
        (case as_float a of Inl e \<Rightarrow> Inl e | Inr x \<Rightarrow>
         (case as_float b of Inl e \<Rightarrow> Inl e | Inr y \<Rightarrow> Inr (PFloat (fmul x y)))))"

definition py_truediv :: "pynum \<Rightarrow> pynum \<Rightarrow> error + pynum" where
  "py_truediv a b =
     (case (a, b) of
        (PInt m, PInt n) \<Rightarrow>
          (case int_truediv m n of Inl e \<Rightarrow> Inl e | Inr q \<Rightarrow> Inr (PFloat q))
      | _ \<Rightarrow>
        (case as_float a of Inl e \<Rightarrow> Inl e | Inr x \<Rightarrow>
         (case as_float b of Inl e \<Rightarrow> Inl e | Inr y \<Rightarrow>
            if y = Fin 0 then Inl ZeroDivisionError else Inr (PFloat (fdiv x y)))))"

text \<open>An integer and a float are compared by their exact values.\<close>

definition exact :: "pynum \<Rightarrow> pyfloat" where
  "exact x = (case x of PInt n \<Rightarrow> Fin (of_int n) | PFloat f \<Rightarrow> f)"

definition py_lt :: "pynum \<Rightarrow> pynum \<Rightarrow> bool" where
  "py_lt a b = flt (exact a) (exact b)"

definition py_le :: "pynum \<Rightarrow> pynum \<Rightarrow> bool" where
  "py_le a b = fle (exact a) (exact b)"

text \<open>\<^verbatim>\<open>max(a, b)\<close> and \<^verbatim>\<open>min(a, b)\<close> keep the first argument unless the second is strictly
  beyond it.\<close>

definition py_max :: "pynum \<Rightarrow> pynum \<Rightarrow> pynum" where
  "py_max a b = (if py_lt a b then b else a)"

definition py_min :: "pynum \<Rightarrow> pynum \<Rightarrow> pynum" where
  "py_min a b = (if py_lt b a then b else a)"

text \<open>\<^verbatim>\<open>round(x)\<close> of a float: the nearest integer, ties to even.\<close>

definition py_round :: "pyfloat \<Rightarrow> error + int" where
  "py_round x =
     (case x of Fin q \<Rightarrow> Inr (round_even q) | NaN \<Rightarrow> Inl ValueError | _ \<Rightarrow> Inl OverflowError)"

section \<open>The profile evaluator\<close>

text \<open>
  A profile as the data model has it: two times of day as text, the sleep goal as a number,
  the lifestyle (never read) and the issue tags in the order given.
\<close>

record profile =
  bedtime :: string
  wakeTime :: string
  sleepGoal :: pynum
  lifestyle :: string
  sleepIssues :: "string list"

record metrics =
  sleep_duration :: int
  sleep_debt :: pynum
  sleep_efficiency :: pynum
  circadian_alignment :: int

record recommendation =
  ident :: string
  title :: string
  description :: string
  time :: string
  priority :: string
  category :: string

subsection \<open>Metrics\<close>

text \<open>
  \<^verbatim>\<open>
  def calculate_circadian_alignment(bedtime_hour, wake_hour):
      optimal_bedtime = 22
      optimal_wake = 6
      bedtime_score = max(0, 100 - abs(bedtime_hour - optimal_bedtime) * 10)
      wake_score = max(0, 100 - abs(wake_hour - optimal_wake) * 10)
      return round((bedtime_score + wake_score) / 2)
  \<close>
\<close>

definition calculate_circadian_alignment :: "int \<Rightarrow> int \<Rightarrow> error + int" where
  "calculate_circadian_alignment bedtime_hour wake_hour =
     (let optimal_bedtime = 22;
          optimal_wake = 6;
          bedtime_score = max 0 (100 - \<bar>bedtime_hour - optimal_bedtime\<bar> * 10);
          wake_score = max 0 (100 - \<bar>wake_hour - optimal_wake\<bar> * 10)
      in case int_truediv (bedtime_score + wake_score) 2 of
           Inl e \<Rightarrow> Inl e
         | Inr half \<Rightarrow> py_round half)"

text \<open>
  \<^verbatim>\<open>
  def calculate_sleep_metrics(profile):
      bedtime = profile['bedtime']
      wake_time = profile['wakeTime']
      sleep_goal = profile['sleepGoal']
      bedtime_hour = int(bedtime.split(':')[0])
      wake_hour = int(wake_time.split(':')[0])
      if wake_hour < bedtime_hour:
          sleep_duration = (24 - bedtime_hour) + wake_hour
      else:
          sleep_duration = wake_hour - bedtime_hour
      sleep_debt = max(0, sleep_goal - sleep_duration)
      return {
          'sleep_duration': sleep_duration,
          'sleep_debt': sleep_debt,
          'sleep_efficiency': min(100, (sleep_duration / sleep_goal) * 100),
          'circadian_alignment': calculate_circadian_alignment(bedtime_hour, wake_hour)
      }
  \<close>
  The statements run in the order of the source, so the first one that raises decides the
  exception.
\<close>

definition calculate_sleep_metrics :: "profile \<Rightarrow> error + metrics" where
  "calculate_sleep_metrics profile =
     (let sleep_goal = sleepGoal profile in
      case hour_field (bedtime profile) of Inl e \<Rightarrow> Inl e | Inr bedtime_hour \<Rightarrow>
      case hour_field (wakeTime profile) of Inl e \<Rightarrow> Inl e | Inr wake_hour \<Rightarrow>
      let duration =
            (if wake_hour < bedtime_hour then (24 - bedtime_hour) + wake_hour
             else wake_hour - bedtime_hour) in
      case py_sub sleep_goal (PInt duration) of Inl e \<Rightarrow> Inl e | Inr shortfall \<Rightarrow>
      let debt = py_max (PInt 0) shortfall in
      case py_truediv (PInt duration) sleep_goal of Inl e \<Rightarrow> Inl e | Inr ratio \<Rightarrow>
      case py_mul ratio (PInt 100) of Inl e \<Rightarrow> Inl e | Inr percent \<Rightarrow>
      case calculate_circadian_alignment bedtime_hour wake_hour of Inl e \<Rightarrow> Inl e | Inr alignment \<Rightarrow>
        Inr \<lparr> sleep_duration = duration,
              sleep_debt = debt,
              sleep_efficiency = py_min (PInt 100) percent,
              circadian_alignment = alignment \<rparr>)"

subsection \<open>Recommendations\<close>

text \<open>
  The loop over the issue tags of \<^verbatim>\<open>generate_ai_recommendations\<close>; the list built so far is
  the accumulator, and \<^verbatim>\<open>append\<close> adds at its end.
  \<^verbatim>\<open>
      for issue in profile['sleepIssues']:
          if issue == 'anxiety':
              recommendations.append({
                  'id': 'anxiety-relief',
                  'title': 'Anxiety Management',
                  'description': 'Practice deep breathing or meditation',
                  'time': calculate_time_offset(profile['bedtime'], -1, 30),
                  'priority': 'high',
                  'category': 'mental-health'
              })
          elif issue == 'temperature':
              recommendations.append({
                  'id': 'temperature-control',
                  'title': 'Temperature Optimization',
                  'description': 'Set bedroom to 65-68..F',
                  'time': calculate_time_offset(profile['bedtime'], -1, 0),
                  'priority': 'high',
                  'category': 'environment'
              })
  \<close>
  (The two characters before the \<open>F\<close> of the last description are outside ASCII; they
  are given by the bytes of the source file.)
\<close>

fun issue_loop :: "profile \<Rightarrow> string list \<Rightarrow> recommendation list \<Rightarrow> error + recommendation list" where
  "issue_loop profile [] recommendations = Inr recommendations"
| "issue_loop profile (issue # issues) recommendations =
     (if issue = ''anxiety'' then
        (case calculate_time_offset (bedtime profile) (- 1) 30 of
           Inl e \<Rightarrow> Inl e
         | Inr t \<Rightarrow>
             issue_loop profile issues (recommendations @
               [\<lparr> ident = ''anxiety-relief'',
                   title = ''Anxiety Management'',
                   description = ''Practice deep breathing or meditation'',
                   time = t,
                   priority = ''high'',
                   category = ''mental-health'' \<rparr>]))
      else if issue = ''temperature'' then
        (case calculate_time_offset (bedtime profile) (- 1) 0 of
           Inl e \<Rightarrow> Inl e
         | Inr t \<Rightarrow>
             issue_loop profile issues (recommendations @
               [\<lparr> ident = ''temperature-control'',
                   title = ''Temperature Optimization'',
                   description = ''Set bedroom to 65-68''
                      @ [char_of (195 :: nat), char_of (130 :: nat), char_of (194 :: nat), char_of (176 :: nat)]
                      @ ''F'',
                   time = t,
                   priority = ''high'',
                   category = ''environment'' \<rparr>]))
      else issue_loop profile issues recommendations)"

text \<open>
  \<^verbatim>\<open>
  def generate_ai_recommendations(profile, analysis):
      recommendations = []
      recommendations.append({
          'id': 'wind-down',
          'title': 'Wind-down Routine',
          'description': 'Begin relaxing activities 1-2 hours before bed',
          'time': calculate_time_offset(profile['bedtime'], -2, 0),
          'priority': 'high',
          'category': 'routine'
      })
      recommendations.append({
          'id': 'screen-cutoff',
          'title': 'Digital Sunset',
          'description': 'Turn off screens and blue light devices',
          'time': calculate_time_offset(profile['bedtime'], -1, 0),
          'priority': 'high',
          'category': 'environment'
      })
      for issue in profile['sleepIssues']: ...
      return recommendations
  \<close>
\<close>

definition generate_ai_recommendations :: "profile \<Rightarrow> metrics \<Rightarrow> error + recommendation list" where
  "generate_ai_recommendations profile analysis =
     (case calculate_time_offset (bedtime profile) (- 2) 0 of
        Inl e \<Rightarrow> Inl e
      | Inr t1 \<Rightarrow>
         (case calculate_time_offset (bedtime profile) (- 1) 0 of
            Inl e \<Rightarrow> Inl e
          | Inr t2 \<Rightarrow>
              issue_loop profile (sleepIssues profile)
                ([\<lparr> ident = ''wind-down'',
                     title = ''Wind-down Routine'',
                     description = ''Begin relaxing activities 1-2 hours before bed'',
                     time = t1,
                     priority = ''high'',
                     category = ''routine'' \<rparr>] @
                 [\<lparr> ident = ''screen-cutoff'',
                     title = ''Digital Sunset'',
                     description = ''Turn off screens and blue light devices'',
                     time = t2,
                     priority = ''high'',
                     category = ''environment'' \<rparr>])))"

subsection \<open>The route \<^verbatim>\<open>POST /api/sleep-profile\<close>\<close>

text \<open>
  A response is the JSON payload of a success (status 200) or a failure with its status.
  The failure carries the fixed message of the source or, where the source answers with
  \<^verbatim>\<open>str(e)\<close>, the exception that was caught.
\<close>

datatype reason = Message string | Caught error

datatype 'a response = Success 'a | Failure reason nat

text \<open>
  The body of the request after \<^verbatim>\<open>request.get_json()\<close>: \<open>None\<close> for JSON \<^verbatim>\<open>null\<close>, otherwise
  an object, of which each of the five keys may be missing; \<open>other_keys\<close> counts the keys of
  the object that are none of the five. The values present have the types of the data model.
\<close>

record body =
  b_bedtime :: "string option"
  b_wakeTime :: "string option"
  b_sleepGoal :: "pynum option"
  b_lifestyle :: "string option"
  b_sleepIssues :: "string list option"
  other_keys :: nat

text \<open>\<^verbatim>\<open>not data\<close> holds of \<^verbatim>\<open>None\<close> and of the empty object.\<close>

definition falsy :: "body option \<Rightarrow> bool" where
  "falsy data =
     (case data of
        None \<Rightarrow> True
      | Some b \<Rightarrow> b_bedtime b = None \<and> b_wakeTime b = None \<and> b_sleepGoal b = None \<and>
                  b_lifestyle b = None \<and> b_sleepIssues b = None \<and> other_keys b = 0)"

text \<open>\<^verbatim>\<open>data.get(key, default)\<close>\<close>

definition get :: "'a option \<Rightarrow> 'a \<Rightarrow> 'a" where
  "get v dflt = (case v of None \<Rightarrow> dflt | Some x \<Rightarrow> x)"

text \<open>
  \<^verbatim>\<open>
  def analyze_sleep_profile():
      try:
          data = request.get_json()
          if not data:
              return jsonify({'success': False, 'error': 'No profile data provided'}), 400
          profile = {
              'bedtime': data.get('bedtime', '22:00'),
              'wakeTime': data.get('wakeTime', '06:00'),
              'sleepGoal': data.get('sleepGoal', 8),
              'lifestyle': data.get('lifestyle', 'moderate'),
              'sleepIssues': data.get('sleepIssues', [])
          }
          analysis = calculate_sleep_metrics(profile)
          recommendations = generate_ai_recommendations(profile, analysis)
          return jsonify({'success': True, 'profile': profile, 'analysis': analysis,
                          'recommendations': recommendations})
      except Exception as e:
          return jsonify({'success': False, 'error': str(e)}), 500
  \<close>
\<close>

definition profile_of :: "body \<Rightarrow> profile" where
  "profile_of b =
     \<lparr> bedtime = get (b_bedtime b) ''22:00'',
       wakeTime = get (b_wakeTime b) ''06:00'',
       sleepGoal = get (b_sleepGoal b) (PInt 8),
       lifestyle = get (b_lifestyle b) ''moderate'',
       sleepIssues = get (b_sleepIssues b) [] \<rparr>"

definition analyze_sleep_profile ::
    "body option \<Rightarrow> (profile \<times> metrics \<times> recommendation list) response" where
  "analyze_sleep_profile data =
     (case data of
        None \<Rightarrow> Failure (Message ''No profile data provided'') 400
      | Some b \<Rightarrow>
          if falsy data then Failure (Message ''No profile data provided'') 400
          else
            let profile = profile_of b
            in case calculate_sleep_metrics profile of
                 Inl e \<Rightarrow> Failure (Caught e) 500
               | Inr analysis \<Rightarrow>
                  (case generate_ai_recommendations profile analysis of
                     Inl e \<Rightarrow> Failure (Caught e) 500
                   | Inr recommendations \<Rightarrow> Success (profile, analysis, recommendations)))"

text \<open>
  A validation error is a failure that blames the client: a status of the class 4xx.
\<close>

definition client_fault :: "'a response \<Rightarrow> bool" where
  "client_fault r = (case r of Success _ \<Rightarrow> False | Failure _ status \<Rightarrow> 400 \<le> status \<and> status < 500)"

text \<open>The empty JSON object; the examples below add keys to it.\<close>

definition empty_body :: body where
  "empty_body = \<lparr> b_bedtime = None, b_wakeTime = None, b_sleepGoal = None,
                    b_lifestyle = None, b_sleepIssues = None, other_keys = 0 \<rparr>"

text \<open>
  A time of day in the words of the specification: two fields separated by a colon, each
  an integer literal.
\<close>

definition two_colon_integers :: "string \<Rightarrow> bool" where
  "two_colon_integers s =
     (case split_colon s of
        [a, b] \<Rightarrow> \<not> isl (py_int a) \<and> \<not> isl (py_int b)
      | _ \<Rightarrow> False)"

definition succeeded :: "'a response \<Rightarrow> bool" where
  "succeeded r = (case r of Success _ \<Rightarrow> True | Failure _ _ \<Rightarrow> False)"

text \<open>
  Clock arithmetic in the words of the specification: \<open>before h m k\<close> is the time of day
  \<open>k\<close> minutes before \<open>h:m\<close>, written \<open>HH:MM\<close>.
\<close>

definition before :: "int \<Rightarrow> int \<Rightarrow> int \<Rightarrow> string" where
  "before h m k =
     (let t = (h * 60 + m - k) mod 1440
      in fmt02d (t div 60) @ '':'' @ fmt02d (t mod 60))"

section \<open>The aggregator\<close>

text \<open>
  One row of the CSV table. The numeric columns are floats in the source and pandas
  computes their means in binary64, in an order of summation that the source does not fix;
  here a column holds rationals and the mean is exact. The two can differ in the last
  place, so for a mean at a threshold of the rule table, or at a rounding boundary of
  \<^verbatim>\<open>round(x, 2)\<close>, the model and the code can choose differently. Nothing proved
  below depends on the value of a mean: what is proved about the rule table holds for
  every value the means can take.
\<close>

record sleep_record =
  Total_Sleep_Hours :: rat
  Sleep_Quality :: rat
  Productivity_Score :: rat
  Mood_Score :: rat
  Stress_Level :: rat
  Gender :: string
  Age :: int

text \<open>The mean of a column; of no rows it is not-a-number (\<open>None\<close>), and every comparison
  with it is false.\<close>

definition mean :: "rat list \<Rightarrow> rat option" where
  "mean xs = (if xs = [] then None else Some (sum_list xs / of_nat (length xs)))"

definition lt :: "rat option \<Rightarrow> rat \<Rightarrow> bool" where
  "lt a c = (case a of None \<Rightarrow> False | Some x \<Rightarrow> x < c)"

definition gt :: "rat option \<Rightarrow> rat \<Rightarrow> bool" where
  "gt a c = (case a of None \<Rightarrow> False | Some x \<Rightarrow> c < x)"

subsection \<open>The rule table\<close>

text \<open>
  \<^verbatim>\<open>
  def generate_recommendations(df, age, gender):
      recommendations = []
      avg_sleep = df['Total Sleep Hours'].mean()
      avg_quality = df['Sleep Quality'].mean()
      avg_productivity = df['Productivity Score'].mean()
      if avg_sleep < 7:
          recommendations.append("Consider aiming for 7-9 hours of sleep per night for optimal health")
      elif avg_sleep > 9:
          recommendations.append("While longer sleep can be beneficial, ensure it's quality sleep")
      if avg_quality < 7:
          recommendations.append("Focus on improving sleep environment: cool, dark, quiet bedroom")
          recommendations.append("Establish a consistent bedtime routine")
      if avg_productivity > 85:
          recommendations.append("Your sleep patterns are supporting high productivity - maintain consistency")
      elif avg_productivity < 75:
          recommendations.append("Poor sleep may be affecting productivity - prioritize sleep hygiene")
      if age < 30:
          recommendations.append("Young adults often need 7-9 hours of sleep for cognitive performance")
      elif age > 50:
          recommendations.append("Older adults may need consistent sleep timing for better health")
      return recommendations
  \<close>
  The eight texts, in the order of the source:
\<close>

definition rec_sleep_short :: string where
  "rec_sleep_short = ''Consider aiming for 7-9 hours of sleep per night for optimal health''"

definition rec_sleep_long :: string where
  "rec_sleep_long = ''While longer sleep can be beneficial, ensure it'' @ [CHR 0x27] @ ''s quality sleep''"

definition rec_environment :: string where
  "rec_environment = ''Focus on improving sleep environment: cool, dark, quiet bedroom''"

definition rec_routine :: string where
  "rec_routine = ''Establish a consistent bedtime routine''"

definition rec_productive :: string where
  "rec_productive = ''Your sleep patterns are supporting high productivity - maintain consistency''"

definition rec_unproductive :: string where
  "rec_unproductive = ''Poor sleep may be affecting productivity - prioritize sleep hygiene''"

definition rec_young :: string where
  "rec_young = ''Young adults often need 7-9 hours of sleep for cognitive performance''"

definition rec_older :: string where
  "rec_older = ''Older adults may need consistent sleep timing for better health''"

definition rule_table :: "string list" where
  "rule_table = [rec_sleep_short, rec_sleep_long, rec_environment, rec_routine,
                 rec_productive, rec_unproductive, rec_young, rec_older]"

text \<open>The four statements after the means, each taking the list built so far.\<close>

definition duration_rule :: "rat option \<Rightarrow> string list \<Rightarrow> string list" where
  "duration_rule avg_sleep recommendations =
     (if lt avg_sleep 7 then recommendations @ [rec_sleep_short]
      else if gt avg_sleep 9 then recommendations @ [rec_sleep_long]
      else recommendations)"

definition quality_rule :: "rat option \<Rightarrow> string list \<Rightarrow> string list" where
  "quality_rule avg_quality recommendations =
     (if lt avg_quality 7 then (recommendations @ [rec_environment]) @ [rec_routine]
      else recommendations)"

definition productivity_rule :: "rat option \<Rightarrow> string list \<Rightarrow> string list" where
  "productivity_rule avg_productivity recommendations =
     (if gt avg_productivity 85 then recommendations @ [rec_productive]
      else if lt avg_productivity 75 then recommendations @ [rec_unproductive]
      else recommendations)"

definition age_rule :: "int \<Rightarrow> string list \<Rightarrow> string list" where
  "age_rule age recommendations =
     (if age < 30 then recommendations @ [rec_young]
      else if age > 50 then recommendations @ [rec_older]
      else recommendations)"

definition generate_recommendations :: "sleep_record list \<Rightarrow> int \<Rightarrow> string \<Rightarrow> string list" where
  "generate_recommendations df age gender =
     (let recommendations = [];
          avg_sleep = mean (map Total_Sleep_Hours df);
          avg_quality = mean (map Sleep_Quality df);
          avg_productivity = mean (map Productivity_Score df)
      in age_rule age
           (productivity_rule avg_productivity
              (quality_rule avg_quality
                 (duration_rule avg_sleep recommendations))))"

subsection \<open>The route \<^verbatim>\<open>GET /api/sleep-insights/<int:age>/<gender>\<close>\<close>

text \<open>\<^verbatim>\<open>str.lower()\<close> on ASCII text.\<close>

definition lower :: "string \<Rightarrow> string" where
  "lower s = map (\<lambda>c. let n = (of_char c :: nat) in if 65 \<le> n \<and> n \<le> 90 then char_of (n + 32) else c) s"

text \<open>
  The two filters:
  \<^verbatim>\<open>
      age_range = 5
      age_filtered = df[(df['Age'] >= age - age_range) & (df['Age'] <= age + age_range)]
      if gender.lower() != 'all':
          age_filtered = age_filtered[age_filtered['Gender'].str.lower() == gender.lower()]
  \<close>
\<close>

definition age_filtered :: "sleep_record list \<Rightarrow> int \<Rightarrow> string \<Rightarrow> sleep_record list" where
  "age_filtered df age gender =
     (let age_range = 5;
          by_age = filter (\<lambda>r. Age r \<ge> age - age_range \<and> Age r \<le> age + age_range) df
      in if lower gender \<noteq> ''all''
         then filter (\<lambda>r. lower (Gender r) = lower gender) by_age
         else by_age)"

text \<open>\<^verbatim>\<open>round(x, 2)\<close>, on the exact mean.\<close>

definition round2 :: "rat option \<Rightarrow> rat option" where
  "round2 a = (case a of None \<Rightarrow> None | Some x \<Rightarrow> Some (of_int (round_even (x * 100)) / 100))"

record insights =
  average_sleep_hours :: "rat option"
  average_sleep_quality :: "rat option"
  average_productivity :: "rat option"
  average_mood :: "rat option"
  average_stress :: "rat option"
  sample_size :: nat
  recommendations :: "string list"

text \<open>
  The table read from the CSV file is the argument \<open>csv\<close>, \<open>None\<close> when the file does not
  exist.
  \<^verbatim>\<open>
  def get_personalized_insights(age, gender):
      try:
          if not os.path.exists(SLEEP_DATA_PATH):
              return jsonify({'success': False, 'error': 'Sleep data file not found'}), 404
          df = pd.read_csv(SLEEP_DATA_PATH)
          ...
          if len(age_filtered) == 0:
              return jsonify({'success': False,
                              'error': 'No data found for the specified criteria'}), 404
          insights = {
              'average_sleep_hours': round(age_filtered['Total Sleep Hours'].mean(), 2),
              'average_sleep_quality': round(age_filtered['Sleep Quality'].mean(), 2),
              'average_productivity': round(age_filtered['Productivity Score'].mean(), 2),
              'average_mood': round(age_filtered['Mood Score'].mean(), 2),
              'average_stress': round(age_filtered['Stress Level'].mean(), 2),
              'sample_size': len(age_filtered),
              'recommendations': generate_recommendations(age_filtered, age, gender)
          }
          return jsonify({'success': True, 'insights': insights})
      except Exception as e:
          return jsonify({'success': False, 'error': str(e)}), 500
  \<close>
\<close>

definition get_personalized_insights ::
    "sleep_record list option \<Rightarrow> int \<Rightarrow> string \<Rightarrow> insights response" where
  "get_personalized_insights csv age gender =
     (case csv of
        None \<Rightarrow> Failure (Message ''Sleep data file not found'') 404
      | Some df \<Rightarrow>
          let selected = age_filtered df age gender
          in if length selected = 0
             then Failure (Message ''No data found for the specified criteria'') 404
             else Success
               \<lparr> average_sleep_hours = round2 (mean (map Total_Sleep_Hours selected)),
                 average_sleep_quality = round2 (mean (map Sleep_Quality selected)),
                 average_productivity = round2 (mean (map Productivity_Score selected)),
                 average_mood = round2 (mean (map Mood_Score selected)),
                 average_stress = round2 (mean (map Stress_Level selected)),
                 sample_size = length selected,
                 recommendations = generate_recommendations selected age gender \<rparr>)"

text \<open>
  The selection in the words of the specification: the age within five years of the target,
  both ends included, and the gender equal up to case, unless the gender asked for is
  \<open>all\<close> in any case.
\<close>

definition meets_criteria :: "int \<Rightarrow> string \<Rightarrow> sleep_record \<Rightarrow> bool" where
  "meets_criteria a g r =
     (a - 5 \<le> Age r \<and> Age r \<le> a + 5 \<and> (lower g = ''all'' \<or> lower (Gender r) = lower g))"

subsection \<open>Example rows\<close>

definition row_a :: sleep_record where
  "row_a = \<lparr> Total_Sleep_Hours = 6, Sleep_Quality = 5, Productivity_Score = 70,
             Mood_Score = 6, Stress_Level = 4, Gender = ''Male'', Age = 30 \<rparr>"

definition row_b :: sleep_record where
  "row_b = \<lparr> Total_Sleep_Hours = 19 / 2, Sleep_Quality = 8, Productivity_Score = 90,
             Mood_Score = 7, Stress_Level = 3, Gender = ''Female'', Age = 35 \<rparr>"

section \<open>Properties of the rule table\<close>

lemma distinct_rule_table: "distinct rule_table"
  by (simp add: rule_table_def rec_sleep_short_def rec_sleep_long_def rec_environment_def
      rec_routine_def rec_productive_def rec_unproductive_def rec_young_def rec_older_def)

text \<open>Each rule only appends to the list it is given.\<close>

lemma duration_rule_acc: "duration_rule s acc = acc @ duration_rule s []"
  by (simp add: duration_rule_def)

lemma quality_rule_acc: "quality_rule q acc = acc @ quality_rule q []"
  by (simp add: quality_rule_def)

lemma productivity_rule_acc: "productivity_rule p acc = acc @ productivity_rule p []"
  by (simp add: productivity_rule_def)

lemma age_rule_acc: "age_rule a acc = acc @ age_rule a []"
  by (simp add: age_rule_def)

lemma rules_append:
  "age_rule a (productivity_rule p (quality_rule q (duration_rule s []))) =
     duration_rule s [] @ quality_rule q [] @ productivity_rule p [] @ age_rule a []"
  using age_rule_acc [of a "productivity_rule p (quality_rule q (duration_rule s []))"]
        productivity_rule_acc [of p "quality_rule q (duration_rule s [])"]
        quality_rule_acc [of q "duration_rule s []"]
  by simp

lemma subseq_duration: "subseq (duration_rule s []) [rec_sleep_short, rec_sleep_long]"
  by (simp add: duration_rule_def)

lemma subseq_quality: "subseq (quality_rule q []) [rec_environment, rec_routine]"
  by (simp add: quality_rule_def)

lemma subseq_productivity: "subseq (productivity_rule p []) [rec_productive, rec_unproductive]"
  by (simp add: productivity_rule_def)

lemma subseq_age: "subseq (age_rule a []) [rec_young, rec_older]"
  by (simp add: age_rule_def)

lemma rules_subseq:
  "subseq (duration_rule s [] @ quality_rule q [] @ productivity_rule p [] @ age_rule a []) rule_table"
proof -
  have "subseq (duration_rule s [] @ quality_rule q [] @ productivity_rule p [] @ age_rule a [])
          ([rec_sleep_short, rec_sleep_long] @ [rec_environment, rec_routine] @
           [rec_productive, rec_unproductive] @ [rec_young, rec_older])"
    by (intro list_emb_append_mono subseq_duration subseq_quality subseq_productivity subseq_age)
  then show ?thesis by (simp add: rule_table_def)
qed

lemma set_duration: "set (duration_rule s []) =
    (if lt s 7 then {rec_sleep_short} else if gt s 9 then {rec_sleep_long} else {})"
  by (simp add: duration_rule_def)

lemma set_quality: "set (quality_rule q []) = (if lt q 7 then {rec_environment, rec_routine} else {})"
  by (auto simp: quality_rule_def)

lemma set_productivity: "set (productivity_rule p []) =
    (if gt p 85 then {rec_productive} else if lt p 75 then {rec_unproductive} else {})"
  by (simp add: productivity_rule_def)

lemma set_age: "set (age_rule a []) =
    (if a < 30 then {rec_young} else if a > 50 then {rec_older} else {})"
  by (simp add: age_rule_def)

text \<open>
  Claim C9. Whatever the rows, the age and the gender, the list returned by
  \<open>generate_recommendations\<close> is a subsequence of the rule table (so its entries come in
  the order of the table, each at most once); the two texts on sleep duration never both
  occur in it, nor do the two texts on productivity; and the text on the sleep environment
  occurs in it exactly when the text on the bedtime routine does.
\<close>

theorem rule_table_exclusive:
  "subseq (generate_recommendations df age gender) rule_table \<and>
   \<not> (rec_sleep_short \<in> set (generate_recommendations df age gender) \<and>
      rec_sleep_long \<in> set (generate_recommendations df age gender)) \<and>
   \<not> (rec_productive \<in> set (generate_recommendations df age gender) \<and>
      rec_unproductive \<in> set (generate_recommendations df age gender)) \<and>
   (rec_environment \<in> set (generate_recommendations df age gender) \<longleftrightarrow>
      rec_routine \<in> set (generate_recommendations df age gender))"
proof -
  define s where "s = mean (map Total_Sleep_Hours df)"
  define q where "q = mean (map Sleep_Quality df)"
  define p where "p = mean (map Productivity_Score df)"
  have g: "generate_recommendations df age gender =
      duration_rule s [] @ quality_rule q [] @ productivity_rule p [] @ age_rule age []"
    by (simp add: generate_recommendations_def s_def q_def p_def rules_append)
  note d = distinct_rule_table [unfolded rule_table_def, simplified]
  have 1: "subseq (generate_recommendations df age gender) rule_table"
    unfolding g by (rule rules_subseq)
  have 2: "\<not> (rec_sleep_short \<in> set (generate_recommendations df age gender) \<and>
      rec_sleep_long \<in> set (generate_recommendations df age gender))"
    unfolding g using d by (auto simp: set_duration set_quality set_productivity set_age)
  have 3: "\<not> (rec_productive \<in> set (generate_recommendations df age gender) \<and>
      rec_unproductive \<in> set (generate_recommendations df age gender))"
    unfolding g using d by (auto simp: set_duration set_quality set_productivity set_age)
  have 4: "rec_environment \<in> set (generate_recommendations df age gender) \<longleftrightarrow>
      rec_routine \<in> set (generate_recommendations df age gender)"
    unfolding g using d by (auto simp: set_duration set_quality set_productivity set_age)
  from 1 2 3 4 show ?thesis by blast
qed

theorem rule_table_exclusive_witness:
  "subseq (generate_recommendations [row_a, row_b] 25 ''male'') rule_table \<and>
   \<not> (rec_sleep_short \<in> set (generate_recommendations [row_a, row_b] 25 ''male'') \<and>
      rec_sleep_long \<in> set (generate_recommendations [row_a, row_b] 25 ''male'')) \<and>
   \<not> (rec_productive \<in> set (generate_recommendations [row_a, row_b] 25 ''male'') \<and>
      rec_unproductive \<in> set (generate_recommendations [row_a, row_b] 25 ''male'')) \<and>
   (rec_environment \<in> set (generate_recommendations [row_a, row_b] 25 ''male'') \<longleftrightarrow>
      rec_routine \<in> set (generate_recommendations [row_a, row_b] 25 ''male''))"
  by (rule rule_table_exclusive)

text \<open>
  Claim C10. The gender argument of \<open>generate_recommendations\<close> is never read: two calls
  that differ only in the gender return the same list.
\<close>

theorem gender_not_read:
  "generate_recommendations df age gender = generate_recommendations df age gender'"
  by (simp add: generate_recommendations_def)

section \<open>The filtered insight\<close>

text \<open>
  Claim C7. The rows selected by the two filters are exactly the rows that meet the criteria
  of the specification; when the gender is \<open>all\<close> in any case they are the rows selected
  by age alone; when no row is selected the route answers with the failure
  \<open>No data found for the specified criteria\<close> (status 404), and otherwise with a success
  whose sample size is the number of rows selected.
\<close>

theorem insights_selection:
  "age_filtered df a g = filter (meets_criteria a g) df \<and>
   (lower g = ''all'' \<longrightarrow> age_filtered df a g = filter (\<lambda>r. a - 5 \<le> Age r \<and> Age r \<le> a + 5) df) \<and>
   (filter (meets_criteria a g) df = [] \<longrightarrow>
      get_personalized_insights (Some df) a g =
        Failure (Message ''No data found for the specified criteria'') 404) \<and>
   (filter (meets_criteria a g) df \<noteq> [] \<longrightarrow>
      (\<exists>ins. get_personalized_insights (Some df) a g = Success ins \<and>
             sample_size ins = length (filter (meets_criteria a g) df)))"
proof -
  have sel: "age_filtered df a g = filter (meets_criteria a g) df"
    by (auto simp: age_filtered_def meets_criteria_def Let_def intro: filter_cong)
  have all: "lower g = ''all'' \<longrightarrow>
      age_filtered df a g = filter (\<lambda>r. a - 5 \<le> Age r \<and> Age r \<le> a + 5) df"
    by (auto simp: age_filtered_def Let_def intro: filter_cong)
  have empty: "filter (meets_criteria a g) df = [] \<longrightarrow>
      get_personalized_insights (Some df) a g =
        Failure (Message ''No data found for the specified criteria'') 404"
    by (simp add: get_personalized_insights_def sel Let_def)
  have nonempty: "filter (meets_criteria a g) df \<noteq> [] \<longrightarrow>
      (\<exists>ins. get_personalized_insights (Some df) a g = Success ins \<and>
             sample_size ins = length (filter (meets_criteria a g) df))"
    by (simp add: get_personalized_insights_def sel Let_def)
  from sel all empty nonempty show ?thesis by blast
qed

theorem insights_selection_witness:
  "lower ''aLL'' = ''all'' \<and>
   age_filtered [row_a, row_b] 30 ''aLL'' = [row_a, row_b] \<and>
   filter (meets_criteria 5 ''male'') [row_a, row_b] = [] \<and>
   get_personalized_insights (Some [row_a, row_b]) 5 ''male'' =
     Failure (Message ''No data found for the specified criteria'') 404 \<and>
   filter (meets_criteria 30 ''MALE'') [row_a, row_b] \<noteq> [] \<and>
   (\<exists>ins. get_personalized_insights (Some [row_a, row_b]) 30 ''MALE'' = Success ins \<and>
          sample_size ins = 1)"
proof -
  have l: "lower ''aLL'' = ''all''"
    by code_simp
  have f: "filter (\<lambda>r. 30 - 5 \<le> Age r \<and> Age r \<le> 30 + 5) [row_a, row_b] = [row_a, row_b]"
    by (simp add: row_a_def row_b_def)
  have e: "filter (meets_criteria 5 ''male'') [row_a, row_b] = []"
    by (simp add: meets_criteria_def row_a_def row_b_def)
  have n: "filter (meets_criteria 30 ''MALE'') [row_a, row_b] = [row_a]"
    by code_simp
  have 1: "age_filtered [row_a, row_b] 30 ''aLL'' = [row_a, row_b]"
    using insights_selection [of "[row_a, row_b]" 30 "''aLL''", THEN conjunct2, THEN conjunct1, THEN mp, OF l]
    by (simp only: f)
  have 2: "get_personalized_insights (Some [row_a, row_b]) 5 ''male'' =
     Failure (Message ''No data found for the specified criteria'') 404"
    using insights_selection [of "[row_a, row_b]" 5 "''male''", THEN conjunct2, THEN conjunct2, THEN conjunct1, THEN mp, OF e] .
  have 3: "\<exists>ins. get_personalized_insights (Some [row_a, row_b]) 30 ''MALE'' = Success ins \<and>
          sample_size ins = 1"
    using insights_selection [of "[row_a, row_b]" 30 "''MALE''", THEN conjunct2, THEN conjunct2, THEN conjunct2]
    by (simp only: n) simp
  have 4: "filter (meets_criteria 30 ''MALE'') [row_a, row_b] \<noteq> []"
    by (simp only: n) simp
  from l 1 e 2 4 3 show ?thesis by blast
qed

section \<open>The time-offset helper at the end of the day\<close>

text \<open>
  Claim C4. The helper is claimed to return an hour within 0 to 23 for every base time
  and every offset. It does not: the hour is brought into range before the minutes are
  carried, so the carry of a minute sum of 60 or more can push the hour to 24. The call
  below is the one that the profile evaluator makes for the tag \<open>anxiety\<close> on the bedtime
  \<open>00:45\<close>.
\<close>

theorem time_offset_hour_24: "calculate_time_offset ''00:45'' (- 1) 30 = Inr ''24:15''"
  by code_simp

section \<open>Facts about rounding\<close>

lemma round_even_nonneg: "0 \<le> q \<Longrightarrow> 0 \<le> round_even q"
  by (auto simp: round_even_def Let_def)

lemma round_even_le: "of_int (round_even q) \<le> q + 1"
proof -
  have "round_even q \<le> \<lfloor>q\<rfloor> + 1"
    by (simp add: round_even_def Let_def)
  then have "(of_int (round_even q) :: rat) \<le> of_int (\<lfloor>q\<rfloor> + 1)"
    by (simp only: of_int_le_iff)
  also have "\<dots> = of_int \<lfloor>q\<rfloor> + 1" by simp
  also have "\<dots> \<le> q + 1" by simp
  finally show ?thesis .
qed

lemma ilog2_le:
  assumes "0 < a"
  shows "2 powi (ilog2 a) \<le> a"
proof -
  obtain n d where nd: "quotient_of a = (n, d)" by (cases "quotient_of a")
  have d: "0 < d" using nd by (rule quotient_of_denom_pos)
  have a: "a = of_int n / of_int d" using nd by (rule quotient_of_div)
  have n: "0 < n"
    using assms d unfolding a by (simp add: zero_less_divide_iff)
  define k where "k = bitlen n - bitlen d"
  show ?thesis
  proof (cases "2 powi k \<le> a")
    case True
    then show ?thesis by (simp add: ilog2_def nd k_def Let_def)
  next
    case False
    then have e: "ilog2 a = k - 1" by (simp add: ilog2_def nd k_def Let_def)
    have bn: "2 ^ nat (bitlen n - 1) \<le> n" using bitlen_bounds [OF n] by simp
    have bd: "d < 2 ^ nat (bitlen d)" using bitlen_bounds [OF d] by simp
    have n1: "1 \<le> bitlen n" using n by (simp add: bitlen_alt_def)
    have d1: "0 \<le> bitlen d" by (rule bitlen_nonneg)
    have ke: "k - 1 = (bitlen n - 1) - bitlen d" by (simp add: k_def)
    have "(2::rat) powi (k - 1) = 2 powi (bitlen n - 1) / 2 powi (bitlen d)"
      unfolding ke by (rule power_int_diff) simp
    also have "\<dots> = 2 ^ nat (bitlen n - 1) / 2 ^ nat (bitlen d)"
      using n1 d1 by (simp add: power_int_def)
    also have "\<dots> \<le> of_int n / of_int d"
    proof (rule frac_le)
      show "(0::rat) \<le> of_int n" using n by simp
      have "(of_int (2 ^ nat (bitlen n - 1)) :: rat) \<le> of_int n"
        using bn by (simp only: of_int_le_iff)
      then show "(2::rat) ^ nat (bitlen n - 1) \<le> of_int n" by simp
      show "(0::rat) < of_int d" using d by simp
      have "(of_int d :: rat) \<le> of_int (2 ^ nat (bitlen d))"
        using bd by (simp only: of_int_le_iff)
      then show "(of_int d :: rat) \<le> 2 ^ nat (bitlen d)" by simp
    qed
    finally have "(2::rat) powi (k - 1) \<le> a" by (simp only: a [symmetric])
    then show ?thesis by (simp only: e)
  qed
qed

lemma fl_nonneg:
  assumes "0 \<le> q"
  shows "fl q = PInf \<or> (\<exists>r. fl q = Fin r \<and> 0 \<le> r)"
proof (cases "q = 0")
  case True
  then show ?thesis by (simp add: fl_def)
next
  case False
  with assms have q: "0 < q" by simp
  define u where "u = max (ilog2 \<bar>q\<bar>) (- 1022) - 52"
  define v where "v = (of_int (round_even (\<bar>q\<bar> / 2 powi u)) :: rat) * 2 powi u"
  have "0 \<le> \<bar>q\<bar> / 2 powi u" by simp
  then have "0 \<le> round_even (\<bar>q\<bar> / 2 powi u)" by (rule round_even_nonneg)
  then have v: "0 \<le> v" by (simp add: v_def)
  have "fl q = (if 2 powi 1024 \<le> v then PInf else Fin v)"
    using q by (simp add: fl_def Let_def u_def v_def)
  with v show ?thesis by auto
qed

lemma fl_small:
  assumes "0 \<le> q" "q \<le> 1024"
  shows "\<exists>r. fl q = Fin r \<and> 0 \<le> r"
proof (cases "q = 0")
  case True
  then show ?thesis by (simp add: fl_def)
next
  case False
  with assms have q: "0 < q" by simp
  define e where "e = ilog2 \<bar>q\<bar>"
  define u where "u = max e (- 1022) - 52"
  define v where "v = (of_int (round_even (\<bar>q\<bar> / 2 powi u)) :: rat) * 2 powi u"
  have "(2::rat) powi e \<le> \<bar>q\<bar>" unfolding e_def using q by (intro ilog2_le) simp
  also have "\<bar>q\<bar> \<le> 2 powi 10" using assms by simp
  finally have "e \<le> 10"
    by (rule power_int_le_imp_le_exp [rotated]) simp_all
  then have "u \<le> 0" by (simp add: u_def)
  then have u1: "(2::rat) powi u \<le> 1"
    using power_int_increasing [of u 0 "2::rat"] by simp
  have pos: "(0::rat) < 2 powi u" by simp
  have "v \<le> (\<bar>q\<bar> / 2 powi u + 1) * 2 powi u"
    unfolding v_def using round_even_le [of "\<bar>q\<bar> / 2 powi u"] pos
    by (intro mult_right_mono) simp_all
  also have "\<dots> = \<bar>q\<bar> + 2 powi u" using pos by (simp add: field_simps)
  also have "\<dots> \<le> 1025" using assms u1 by simp
  also have "\<dots> < 2 powi 1024" by simp
  finally have lt: "\<not> 2 powi 1024 \<le> v" by simp
  have "0 \<le> \<bar>q\<bar> / 2 powi u" by simp
  then have "0 \<le> round_even (\<bar>q\<bar> / 2 powi u)" by (rule round_even_nonneg)
  then have v: "0 \<le> v" by (simp add: v_def)
  have "fl q = Fin v"
    using q lt by (simp add: fl_def Let_def u_def v_def e_def)
  with v show ?thesis by simp
qed

lemma fl_bounded:
  assumes "\<bar>q\<bar> \<le> 1024"
  shows "\<exists>r. fl q = Fin r"
proof (cases "0 \<le> q")
  case True
  with assms fl_small [of q] show ?thesis by auto
next
  case False
  then have q: "q < 0" by simp
  with assms fl_small [of "- q"] obtain r where r: "fl (- q) = Fin r" by auto
  define u where "u = max (ilog2 \<bar>q\<bar>) (- 1022) - 52"
  define v where "v = (of_int (round_even (\<bar>q\<bar> / 2 powi u)) :: rat) * 2 powi u"
  have "fl (- q) = (if 2 powi 1024 \<le> v then PInf else Fin v)"
    using q by (simp add: fl_def Let_def u_def v_def)
  with r have "\<not> 2 powi 1024 \<le> v" by (auto split: if_splits)
  then have "fl q = Fin (- v)"
    using q by (simp add: fl_def Let_def u_def v_def)
  then show ?thesis by simp
qed

lemma round_even_of_int: "round_even (of_int k) = k"
  by (simp add: round_even_def)

lemma to_float_small:
  assumes "0 \<le> n" "n \<le> 1024"
  shows "\<exists>r. to_float n = Inr (Fin r) \<and> 0 \<le> r"
proof -
  have "(0::rat) \<le> of_int n" "(of_int n :: rat) \<le> 1024" using assms by simp_all
  from fl_small [OF this] obtain r where "fl (of_int n) = Fin r" "0 \<le> r" by auto
  then show ?thesis by (simp add: to_float_def)
qed

lemma to_float_bounded:
  assumes "\<bar>n\<bar> \<le> 1024"
  shows "\<exists>r. to_float n = Inr (Fin r)"
proof -
  have "\<bar>of_int n :: rat\<bar> \<le> 1024" using assms by (simp flip: of_int_abs)
  from fl_bounded [OF this] show ?thesis by (auto simp: to_float_def)
qed

lemma to_float_cases: "to_float n = Inl OverflowError \<or> (\<exists>r. to_float n = Inr (Fin r))"
  by (simp add: to_float_def split: pyfloat.splits)

lemma int_truediv_small:
  assumes "0 \<le> m" "m \<le> 1024" "0 < n"
  shows "\<exists>r. int_truediv m n = Inr (Fin r) \<and> 0 \<le> r"
proof -
  have "(of_int m :: rat) / of_int n \<le> of_int m / 1"
    using assms by (intro divide_left_mono) simp_all
  also have "\<dots> \<le> 1024" using assms by simp
  finally have le: "(of_int m :: rat) / of_int n \<le> 1024" .
  have "(0::rat) \<le> of_int m / of_int n" using assms by simp
  from fl_small [OF this le] obtain r where "fl (of_int m / of_int n) = Fin r" "0 \<le> r" by auto
  then show ?thesis using assms by (simp add: int_truediv_def)
qed

lemma int_truediv_bounded:
  assumes "\<bar>m\<bar> \<le> 1024" "n \<noteq> 0"
  shows "\<exists>r. int_truediv m n = Inr (Fin r)"
proof -
  have n1: "(1::rat) \<le> \<bar>of_int n\<bar>" using assms by (simp flip: of_int_abs)
  have "\<bar>(of_int m :: rat) / of_int n\<bar> = \<bar>of_int m\<bar> / \<bar>of_int n\<bar>" by simp
  also have "\<dots> \<le> \<bar>of_int m\<bar> / 1"
    using n1 by (intro divide_left_mono) simp_all
  also have "\<dots> \<le> 1024" using assms by (simp flip: of_int_abs)
  finally have "\<bar>(of_int m :: rat) / of_int n\<bar> \<le> 1024" .
  from fl_bounded [OF this] show ?thesis using assms by (auto simp: int_truediv_def)
qed

lemma fl_of_int_exact:
  assumes "\<bar>n\<bar> < 2 ^ 53"
  shows "fl (of_int n) = Fin (of_int n)"
proof (cases "n = 0")
  case True
  then show ?thesis by (simp add: fl_def)
next
  case False
  define a :: rat where "a = \<bar>of_int n\<bar>"
  have a_int: "a = of_int \<bar>n\<bar>" by (simp add: a_def)
  have a_pos: "0 < a" using False by (simp add: a_def)
  have "a < of_int (2 ^ 53)" unfolding a_int using assms by (simp only: of_int_less_iff)
  then have a_lt: "a < 2 powi 53" by simp
  define e where "e = ilog2 a"
  define u where "u = max e (- 1022) - 52"
  have "(2::rat) powi e \<le> a" unfolding e_def using a_pos by (rule ilog2_le)
  with a_lt have "(2::rat) powi e < 2 powi 53" by simp
  then have "e < 53" by (rule power_int_le_imp_less_exp [rotated]) simp_all
  then have u0: "u \<le> 0" by (simp add: u_def)
  have pu: "(2::rat) powi u = 1 / 2 ^ nat (- u)"
    using u0 power_int_minus_divide [of "2::rat" "- u"] by (simp add: power_int_def)
  have "a / 2 powi u = of_int (\<bar>n\<bar> * 2 ^ nat (- u))"
    by (simp add: pu a_int)
  then have "round_even (a / 2 powi u) = \<bar>n\<bar> * 2 ^ nat (- u)"
    by (simp only: round_even_of_int)
  then have v: "(of_int (round_even (a / 2 powi u)) :: rat) * 2 powi u = a"
    by (simp add: pu a_int)
  have "a < 2 powi 1024" using a_lt by simp
  then have no: "\<not> 2 powi 1024 \<le> a" by simp
  have sgn: "(if (of_int n :: rat) < 0 then - a else a) = of_int n"
    by (simp add: a_def)
  have "fl (of_int n) = Fin (if (of_int n :: rat) < 0 then - a else a)"
    using False no v by (simp add: fl_def Let_def a_def [symmetric] e_def [symmetric] u_def [symmetric])
  then show ?thesis by (simp only: sgn)
qed

lemma fl_100: "fl 100 = Fin 100"
  using fl_of_int_exact [of 100] by simp

lemma to_float_100: "to_float 100 = Inr (Fin 100)"
  by (simp add: to_float_def fl_100)

lemma circadian_value:
  "calculate_circadian_alignment bh wh =
     Inr (5 * (max 0 (10 - \<bar>bh - 22\<bar>) + max 0 (10 - \<bar>wh - 6\<bar>)))"
proof -
  define j where "j = max 0 (10 - \<bar>bh - 22\<bar>) + max 0 (10 - \<bar>wh - 6\<bar>)"
  have j: "0 \<le> j" "j \<le> 20" by (auto simp: j_def)
  have s: "max 0 (100 - \<bar>bh - 22\<bar> * 10) + max 0 (100 - \<bar>wh - 6\<bar> * 10) = 10 * j"
    by (auto simp: j_def max_def)
  have "(of_int (10 * j) :: rat) / of_int 2 = of_int (5 * j)" by simp
  moreover have "fl (of_int (5 * j)) = Fin (of_int (5 * j))"
    using j by (intro fl_of_int_exact) simp
  ultimately have h: "int_truediv (10 * j) 2 = Inr (Fin (of_int (5 * j)))"
    by (simp add: int_truediv_def)
  show ?thesis
    unfolding calculate_circadian_alignment_def Let_def s h j_def [symmetric]
    by (simp only: sum.case py_round_def pyfloat.case round_even_of_int)
qed

lemma circadian_bounds:
  "\<exists>c. calculate_circadian_alignment bh wh = Inr c \<and> 0 \<le> c \<and> c \<le> 100"
proof -
  define x where "x = max 0 (10 - \<bar>bh - 22\<bar>)"
  define y where "y = max 0 (10 - \<bar>wh - 6\<bar>)"
  have "0 \<le> x" "x \<le> 10" "0 \<le> y" "y \<le> 10"
    by (simp_all add: x_def y_def)
  then show ?thesis
    unfolding circadian_value x_def [symmetric] y_def [symmetric] by simp
qed

section \<open>Facts about the metrics\<close>

lemma fle_zero_iff: "fle (Fin 0) z \<longleftrightarrow> z = PInf \<or> (\<exists>r. z = Fin r \<and> 0 \<le> r)"
  by (cases z) (auto simp: fle_def flt_def)

lemma flt_imp_fle: "flt x y \<Longrightarrow> fle x y"
  by (cases x; cases y) (simp_all add: fle_def flt_def)

lemma goal_positive_cases:
  assumes "py_lt (PInt 0) g"
  shows "(\<exists>n. g = PInt n \<and> 0 < n) \<or> (\<exists>r. g = PFloat (Fin r) \<and> 0 < r) \<or> g = PFloat PInf"
proof (cases g)
  case (PInt n)
  with assms show ?thesis by (simp add: py_lt_def exact_def flt_def)
next
  case (PFloat x)
  with assms show ?thesis by (cases x) (simp_all add: py_lt_def exact_def flt_def)
qed

lemma to_float_error: "to_float n = Inl e \<Longrightarrow> e = OverflowError"
  by (simp add: to_float_def split: pyfloat.splits)

lemma int_truediv_error:
  "int_truediv m n = Inl e \<Longrightarrow> e = ZeroDivisionError \<or> e = OverflowError"
  by (simp add: int_truediv_def split: pyfloat.splits if_splits)

lemma py_sub_errors: "py_sub a b = Inl e \<Longrightarrow> e = OverflowError"
  by (cases a; cases b) (auto simp: py_sub_def as_float_def split: sum.splits dest: to_float_error)

lemma py_mul_errors: "py_mul a b = Inl e \<Longrightarrow> e = OverflowError"
  by (cases a; cases b) (auto simp: py_mul_def as_float_def split: sum.splits dest: to_float_error)

lemma py_truediv_errors:
  "py_truediv a b = Inl e \<Longrightarrow> e = ZeroDivisionError \<or> e = OverflowError"
  by (cases a; cases b)
     (auto simp: py_truediv_def as_float_def split: sum.splits if_splits
           dest: to_float_error int_truediv_error)

lemma py_sub_small:
  assumes "\<bar>d\<bar> \<le> 1024"
  shows "\<exists>y. py_sub g (PInt d) = Inr y"
proof (cases g)
  case (PInt n)
  then show ?thesis by (simp add: py_sub_def)
next
  case (PFloat x)
  from to_float_bounded [OF assms] obtain r where "to_float d = Inr (Fin r)" ..
  with PFloat show ?thesis by (simp add: py_sub_def as_float_def)
qed

lemma py_truediv_pos:
  assumes "0 \<le> d" "d \<le> 1024" "py_lt (PInt 0) g"
  shows "\<exists>z. py_truediv (PInt d) g = Inr (PFloat z) \<and> fle (Fin 0) z"
proof -
  from to_float_small [OF assms(1,2)] obtain d' where d': "to_float d = Inr (Fin d')" "0 \<le> d'"
    by auto
  from goal_positive_cases [OF assms(3)] consider
      n where "g = PInt n" "0 < n"
    | r where "g = PFloat (Fin r)" "0 < r"
    | "g = PFloat PInf"
    by blast
  then show ?thesis
  proof cases
    case 1
    from int_truediv_small [OF assms(1,2) 1(2)] obtain q where "int_truediv d n = Inr (Fin q)" "0 \<le> q"
      by auto
    with 1 show ?thesis by (simp add: py_truediv_def fle_zero_iff)
  next
    case 2
    have "0 \<le> d' / r" using d' 2 by simp
    from fl_nonneg [OF this] have "fle (Fin 0) (fl (d' / r))" by (simp add: fle_zero_iff)
    with 2 d' show ?thesis by (simp add: py_truediv_def as_float_def fdiv_def)
  next
    case 3
    with d' show ?thesis by (simp add: py_truediv_def as_float_def fdiv_def fle_zero_iff)
  qed
qed

lemma py_mul_100: "py_mul (PFloat z) (PInt 100) = Inr (PFloat (fmul z (Fin 100)))"
  by (simp add: py_mul_def as_float_def to_float_100)

lemma fmul_100_nonneg:
  assumes "fle (Fin 0) z"
  shows "fle (Fin 0) (fmul z (Fin 100))"
proof -
  from assms consider "z = PInf" | r where "z = Fin r" "0 \<le> r" by (auto simp: fle_zero_iff)
  then show ?thesis
  proof cases
    case 1
    then show ?thesis by (simp add: fmul_def inf_of_def is_neg_def fle_zero_iff)
  next
    case 2
    then have "0 \<le> r * 100" by simp
    from fl_nonneg [OF this] 2 show ?thesis by (simp add: fmul_def fle_zero_iff)
  qed
qed

lemma py_max_0: "py_le (PInt 0) (py_max (PInt 0) y)"
proof (cases "py_lt (PInt 0) y")
  case True
  then show ?thesis by (simp add: py_max_def py_le_def py_lt_def flt_imp_fle)
next
  case False
  then show ?thesis by (simp add: py_max_def py_le_def exact_def fle_def)
qed

lemma py_min_100:
  assumes "fle (Fin 0) z"
  shows "py_le (PInt 0) (py_min (PInt 100) (PFloat z)) \<and> py_le (py_min (PInt 100) (PFloat z)) (PInt 100)"
proof (cases "py_lt (PFloat z) (PInt 100)")
  case True
  with assms show ?thesis by (simp add: py_min_def py_le_def py_lt_def exact_def flt_imp_fle)
next
  case False
  then show ?thesis by (simp add: py_min_def py_le_def exact_def fle_def flt_def)
qed

lemma metrics_duration:
  assumes "hour_field (bedtime p) = Inr bh" "hour_field (wakeTime p) = Inr wh"
    and "calculate_sleep_metrics p = Inr m"
  shows "sleep_duration m = (if wh < bh then (24 - bh) + wh else wh - bh)"
  using assms by (auto simp: calculate_sleep_metrics_def Let_def split: sum.splits)

lemma metrics_errors:
  assumes "hour_field (bedtime p) = Inr bh" "hour_field (wakeTime p) = Inr wh"
    and "calculate_sleep_metrics p = Inl e"
  shows "e = ZeroDivisionError \<or> e = OverflowError"
  using assms py_sub_errors py_mul_errors py_truediv_errors
  by (auto simp: calculate_sleep_metrics_def Let_def circadian_value split: sum.splits)

lemma metrics_efficiency:
  assumes "calculate_sleep_metrics p = Inr m"
  shows "\<exists>ratio percent. py_truediv (PInt (sleep_duration m)) (sleepGoal p) = Inr ratio \<and>
           py_mul ratio (PInt 100) = Inr percent \<and>
           sleep_efficiency m = py_min (PInt 100) percent"
  using assms by (auto simp: calculate_sleep_metrics_def Let_def split: sum.splits)

lemma duration_range:
  assumes "0 \<le> bh" "bh \<le> 23" "0 \<le> wh" "wh \<le> (23::int)"
  shows "0 \<le> (if wh < bh then (24 - bh) + wh else wh - bh)"
    and "(if wh < bh then (24 - bh) + wh else wh - bh) \<le> 1024"
  using assms by auto

lemma metrics_positive_goal:
  assumes bh: "hour_field (bedtime p) = Inr bh" and wh: "hour_field (wakeTime p) = Inr wh"
    and range: "0 \<le> bh" "bh \<le> 23" "0 \<le> wh" "wh \<le> 23"
    and pos: "py_lt (PInt 0) (sleepGoal p)"
  shows "\<exists>m. calculate_sleep_metrics p = Inr m \<and>
           py_le (PInt 0) (sleep_debt m) \<and>
           py_le (PInt 0) (sleep_efficiency m) \<and> py_le (sleep_efficiency m) (PInt 100) \<and>
           0 \<le> circadian_alignment m \<and> circadian_alignment m \<le> 100"
proof -
  define d where "d = (if wh < bh then (24 - bh) + wh else wh - bh)"
  have d: "0 \<le> d" "d \<le> 1024" unfolding d_def using range by (rule duration_range)+
  then have "\<bar>d\<bar> \<le> 1024" by simp
  from py_sub_small [OF this] obtain y where y: "py_sub (sleepGoal p) (PInt d) = Inr y" ..
  from py_truediv_pos [OF d pos] obtain z where
    z: "py_truediv (PInt d) (sleepGoal p) = Inr (PFloat z)" "fle (Fin 0) z" by auto
  from circadian_bounds obtain c where
    c: "calculate_circadian_alignment bh wh = Inr c" "0 \<le> c" "c \<le> 100" by blast
  have "calculate_sleep_metrics p =
      Inr \<lparr> sleep_duration = d, sleep_debt = py_max (PInt 0) y,
            sleep_efficiency = py_min (PInt 100) (PFloat (fmul z (Fin 100))),
            circadian_alignment = c \<rparr>"
    by (simp add: calculate_sleep_metrics_def Let_def bh wh d_def [symmetric] y z py_mul_100 c)
  with c py_max_0 [of y] py_min_100 [OF fmul_100_nonneg [OF z(2)]] show ?thesis by simp
qed

lemma metrics_int_goal:
  assumes bh: "hour_field (bedtime p) = Inr bh" and wh: "hour_field (wakeTime p) = Inr wh"
    and range: "0 \<le> bh" "bh \<le> 23" "0 \<le> wh" "wh \<le> 23"
    and g: "sleepGoal p = PInt g" "g \<noteq> 0"
  shows "\<exists>m. calculate_sleep_metrics p = Inr m"
proof -
  define d where "d = (if wh < bh then (24 - bh) + wh else wh - bh)"
  have "0 \<le> d" "d \<le> 1024" unfolding d_def using range by (rule duration_range)+
  then have "\<bar>d\<bar> \<le> 1024" by simp
  from int_truediv_bounded [OF this g(2)] obtain r where r: "int_truediv d g = Inr (Fin r)" ..
  from circadian_bounds obtain c where c: "calculate_circadian_alignment bh wh = Inr c" by blast
  show ?thesis
    by (simp add: calculate_sleep_metrics_def Let_def bh wh d_def [symmetric] g py_sub_def
        py_truediv_def r py_mul_100 c)
qed

lemma metrics_zero_int:
  assumes "hour_field (bedtime p) = Inr bh" "hour_field (wakeTime p) = Inr wh"
    and "sleepGoal p = PInt 0"
  shows "calculate_sleep_metrics p = Inl ZeroDivisionError"
  using assms
  by (simp add: calculate_sleep_metrics_def Let_def py_sub_def py_truediv_def int_truediv_def)

lemma metrics_zero_float:
  assumes "hour_field (bedtime p) = Inr bh" "hour_field (wakeTime p) = Inr wh"
    and "sleepGoal p = PFloat (Fin 0)"
  shows "calculate_sleep_metrics p = Inl ZeroDivisionError \<or>
         calculate_sleep_metrics p = Inl OverflowError"
  using assms to_float_cases [of "if wh < bh then (24 - bh) + wh else wh - bh"]
  by (auto simp: calculate_sleep_metrics_def Let_def py_sub_def py_truediv_def as_float_def)

lemma metrics_nonzero:
  assumes "calculate_sleep_metrics p = Inr m"
  shows "exact (sleepGoal p) \<noteq> Fin 0"
proof
  assume z: "exact (sleepGoal p) = Fin 0"
  from assms obtain bh wh where h: "hour_field (bedtime p) = Inr bh" "hour_field (wakeTime p) = Inr wh"
    by (auto simp: calculate_sleep_metrics_def Let_def split: sum.splits)
  from z have "sleepGoal p = PInt 0 \<or> sleepGoal p = PFloat (Fin 0)"
    by (cases "sleepGoal p") (auto simp: exact_def)
  with metrics_zero_int [OF h] metrics_zero_float [OF h] assms show False by auto
qed

section \<open>Sleep duration\<close>

lemma hour_field_examples:
  "hour_field ''23:00'' = Inr 23" "hour_field ''01:00'' = Inr 1"
  "hour_field ''22:00'' = Inr 22" "hour_field ''06:00'' = Inr 6"
  by code_simp+

text \<open>
  Claim C1. Let the first colon-separated field of the bedtime and of the wake time be the
  integers \<open>bh\<close> and \<open>wh\<close> (the minutes are not read). Whenever the metrics are
  returned, the sleep duration is \<open>(24 - bh) + wh\<close> if \<open>wh < bh\<close>, and \<open>wh - bh\<close>
  otherwise; they are returned for every integer sleep goal other than zero and hours
  from 0 to 23. For the bedtime \<open>23:00\<close> and the wake time \<open>01:00\<close> the duration is 2,
  and for \<open>22:00\<close> and \<open>22:00\<close> it is 0.
\<close>

theorem sleep_duration_wraparound:
  assumes "hour_field (bedtime p) = Inr bh" and "hour_field (wakeTime p) = Inr wh"
  shows "(\<forall>m. calculate_sleep_metrics p = Inr m \<longrightarrow>
            sleep_duration m = (if wh < bh then (24 - bh) + wh else wh - bh)) \<and>
         (\<forall>g. sleepGoal p = PInt g \<and> g \<noteq> 0 \<and> 0 \<le> bh \<and> bh \<le> 23 \<and> 0 \<le> wh \<and> wh \<le> 23 \<longrightarrow>
            (\<exists>m. calculate_sleep_metrics p = Inr m)) \<and>
         (bedtime p = ''23:00'' \<and> wakeTime p = ''01:00'' \<longrightarrow>
            (\<forall>m. calculate_sleep_metrics p = Inr m \<longrightarrow> sleep_duration m = 2)) \<and>
         (bedtime p = ''22:00'' \<and> wakeTime p = ''22:00'' \<longrightarrow>
            (\<forall>m. calculate_sleep_metrics p = Inr m \<longrightarrow> sleep_duration m = 0))"
proof -
  have 1: "\<forall>m. calculate_sleep_metrics p = Inr m \<longrightarrow>
            sleep_duration m = (if wh < bh then (24 - bh) + wh else wh - bh)"
    using metrics_duration [OF assms] by blast
  have 2: "\<forall>g. sleepGoal p = PInt g \<and> g \<noteq> 0 \<and> 0 \<le> bh \<and> bh \<le> 23 \<and> 0 \<le> wh \<and> wh \<le> 23 \<longrightarrow>
            (\<exists>m. calculate_sleep_metrics p = Inr m)"
    using metrics_int_goal [OF assms] by blast
  have 3: "bedtime p = ''23:00'' \<and> wakeTime p = ''01:00'' \<longrightarrow>
            (\<forall>m. calculate_sleep_metrics p = Inr m \<longrightarrow> sleep_duration m = 2)"
  proof (intro impI allI, elim conjE)
    fix m
    assume t: "bedtime p = ''23:00''" "wakeTime p = ''01:00''"
      and m: "calculate_sleep_metrics p = Inr m"
    from assms t have "bh = 23" "wh = 1" by (simp_all add: hour_field_examples)
    with 1 m show "sleep_duration m = 2" by simp
  qed
  have 4: "bedtime p = ''22:00'' \<and> wakeTime p = ''22:00'' \<longrightarrow>
            (\<forall>m. calculate_sleep_metrics p = Inr m \<longrightarrow> sleep_duration m = 0)"
  proof (intro impI allI, elim conjE)
    fix m
    assume t: "bedtime p = ''22:00''" "wakeTime p = ''22:00''"
      and m: "calculate_sleep_metrics p = Inr m"
    from assms t have "bh = 22" "wh = 22" by (simp_all add: hour_field_examples)
    with 1 m show "sleep_duration m = 0" by simp
  qed
  from 1 2 3 4 show ?thesis by blast
qed

theorem sleep_duration_wraparound_witness:
  "hour_field ''23:00'' = Inr 23 \<and> hour_field ''01:00'' = Inr 1 \<and>
   (\<exists>m. calculate_sleep_metrics (profile_of (empty_body \<lparr> b_bedtime := Some ''23:00'',
            b_wakeTime := Some ''01:00'' \<rparr>)) = Inr m \<and> sleep_duration m = 2) \<and>
   hour_field ''22:00'' = Inr 22 \<and>
   (\<exists>m. calculate_sleep_metrics (profile_of (empty_body \<lparr> b_bedtime := Some ''22:00'',
            b_wakeTime := Some ''22:00'' \<rparr>)) = Inr m \<and> sleep_duration m = 0)"
proof -
  define p1 where "p1 = profile_of (empty_body \<lparr> b_bedtime := Some ''23:00'', b_wakeTime := Some ''01:00'' \<rparr>)"
  define p2 where "p2 = profile_of (empty_body \<lparr> b_bedtime := Some ''22:00'', b_wakeTime := Some ''22:00'' \<rparr>)"
  have f1: "bedtime p1 = ''23:00''" "wakeTime p1 = ''01:00''" "sleepGoal p1 = PInt 8"
    by (simp_all add: p1_def profile_of_def empty_body_def get_def)
  have f2: "bedtime p2 = ''22:00''" "wakeTime p2 = ''22:00''" "sleepGoal p2 = PInt 8"
    by (simp_all add: p2_def profile_of_def empty_body_def get_def)
  have h1: "hour_field (bedtime p1) = Inr 23" "hour_field (wakeTime p1) = Inr 1"
    by (simp_all add: f1 hour_field_examples)
  have h2: "hour_field (bedtime p2) = Inr 22" "hour_field (wakeTime p2) = Inr 22"
    by (simp_all add: f2 hour_field_examples)
  have "\<exists>m. calculate_sleep_metrics p1 = Inr m"
    using sleep_duration_wraparound [OF h1, THEN conjunct2, THEN conjunct1, rule_format, of 8] f1
    by simp
  then obtain m1 where m1: "calculate_sleep_metrics p1 = Inr m1" ..
  have "sleep_duration m1 = 2"
    using sleep_duration_wraparound [OF h1, THEN conjunct1, rule_format, OF m1] by simp
  with m1 have e1: "\<exists>m. calculate_sleep_metrics p1 = Inr m \<and> sleep_duration m = 2" by blast
  have "\<exists>m. calculate_sleep_metrics p2 = Inr m"
    using sleep_duration_wraparound [OF h2, THEN conjunct2, THEN conjunct1, rule_format, of 8] f2
    by simp
  then obtain m2 where m2: "calculate_sleep_metrics p2 = Inr m2" ..
  have "sleep_duration m2 = 0"
    using sleep_duration_wraparound [OF h2, THEN conjunct1, rule_format, OF m2] by simp
  with m2 have e2: "\<exists>m. calculate_sleep_metrics p2 = Inr m \<and> sleep_duration m = 0" by blast
  from e1 e2 show ?thesis
    unfolding p1_def p2_def by (simp add: hour_field_examples)
qed

section \<open>Bounds of the metrics\<close>

text \<open>
  Claim C2. For every profile whose hours are from 0 to 23 and whose sleep goal is greater
  than zero (an integer, a float or infinity), the metrics are returned, the sleep debt is
  at least 0, the sleep efficiency is from 0 to 100, and so is the circadian alignment; for
  the bedtime \<open>22:00\<close> and the wake time \<open>06:00\<close> the circadian alignment is 100.
\<close>

theorem metrics_in_range:
  assumes "hour_field (bedtime p) = Inr bh" and "hour_field (wakeTime p) = Inr wh"
    and "0 \<le> bh" "bh \<le> 23" "0 \<le> wh" "wh \<le> 23"
    and "py_lt (PInt 0) (sleepGoal p)"
  shows "(\<exists>m. calculate_sleep_metrics p = Inr m \<and>
            py_le (PInt 0) (sleep_debt m) \<and>
            py_le (PInt 0) (sleep_efficiency m) \<and> py_le (sleep_efficiency m) (PInt 100) \<and>
            0 \<le> circadian_alignment m \<and> circadian_alignment m \<le> 100) \<and>
         (bedtime p = ''22:00'' \<and> wakeTime p = ''06:00'' \<longrightarrow>
            (\<exists>m. calculate_sleep_metrics p = Inr m \<and> circadian_alignment m = 100))"
proof -
  from metrics_positive_goal [OF assms] obtain m where
    m: "calculate_sleep_metrics p = Inr m"
    and b: "py_le (PInt 0) (sleep_debt m)" "py_le (PInt 0) (sleep_efficiency m)"
      "py_le (sleep_efficiency m) (PInt 100)" "0 \<le> circadian_alignment m"
      "circadian_alignment m \<le> 100"
    by blast
  have "circadian_alignment m = 100" if t: "bedtime p = ''22:00''" "wakeTime p = ''06:00''"
  proof -
    from assms(1,2) t have "bh = 22" "wh = 6" by (simp_all add: hour_field_examples)
    with m assms(1,2) show ?thesis
      by (auto simp: calculate_sleep_metrics_def Let_def circadian_value split: sum.splits)
  qed
  with m b show ?thesis by blast
qed

theorem metrics_in_range_witness:
  "hour_field ''22:00'' = Inr 22 \<and> hour_field ''06:00'' = Inr 6 \<and>
   py_lt (PInt 0) (PFloat (Fin (15 / 2))) \<and>
   (\<exists>m. calculate_sleep_metrics
           (profile_of (empty_body \<lparr> b_sleepGoal := Some (PFloat (Fin (15 / 2))) \<rparr>)) = Inr m \<and>
        py_le (PInt 0) (sleep_debt m) \<and>
        py_le (PInt 0) (sleep_efficiency m) \<and> py_le (sleep_efficiency m) (PInt 100) \<and>
        circadian_alignment m = 100)"
proof -
  define p where "p = profile_of (empty_body \<lparr> b_sleepGoal := Some (PFloat (Fin (15 / 2))) \<rparr>)"
  have f: "bedtime p = ''22:00''" "wakeTime p = ''06:00''" "sleepGoal p = PFloat (Fin (15 / 2))"
    by (simp_all add: p_def profile_of_def empty_body_def get_def)
  have h: "hour_field (bedtime p) = Inr 22" "hour_field (wakeTime p) = Inr 6"
    by (simp_all add: f hour_field_examples)
  have g: "py_lt (PInt 0) (PFloat (Fin (15 / 2)))"
    by (simp add: py_lt_def exact_def flt_def)
  then have g': "py_lt (PInt 0) (sleepGoal p)" by (simp only: f)
  have r: "(0::int) \<le> 22" "(22::int) \<le> 23" "(0::int) \<le> 6" "(6::int) \<le> 23" by simp_all
  note t = metrics_in_range [OF h r g']
  from t [THEN conjunct1] obtain m where
    m: "calculate_sleep_metrics p = Inr m"
    and b: "py_le (PInt 0) (sleep_debt m)" "py_le (PInt 0) (sleep_efficiency m)"
      "py_le (sleep_efficiency m) (PInt 100)"
    by blast
  from t [THEN conjunct2] f obtain m' where
    m': "calculate_sleep_metrics p = Inr m'" "circadian_alignment m' = 100"
    by blast
  from m m' have "circadian_alignment m = 100" by simp
  with m b have "\<exists>m. calculate_sleep_metrics p = Inr m \<and>
        py_le (PInt 0) (sleep_debt m) \<and>
        py_le (PInt 0) (sleep_efficiency m) \<and> py_le (sleep_efficiency m) (PInt 100) \<and>
        circadian_alignment m = 100"
    by blast
  with g show ?thesis unfolding p_def by (simp add: hour_field_examples)
qed

section \<open>A sleep goal of zero\<close>

lemma analyze_metrics_error:
  assumes "\<not> falsy (Some b)" "calculate_sleep_metrics (profile_of b) = Inl e"
  shows "analyze_sleep_profile (Some b) = Failure (Caught e) 500"
  using assms by (simp add: analyze_sleep_profile_def Let_def)

lemma goal_given_not_falsy: "b_sleepGoal b = Some g \<Longrightarrow> \<not> falsy (Some b)"
  by (simp add: falsy_def)

lemma goal_given: "b_sleepGoal b = Some g \<Longrightarrow> sleepGoal (profile_of b) = g"
  by (simp add: profile_of_def get_def)

text \<open>
  Claim C6, as the code has it. Let the hours of the bedtime and of the wake time parse.
  With the integer 0 as sleep goal the evaluation raises \<open>ZeroDivisionError\<close>; with the
  float 0.0 it raises \<open>ZeroDivisionError\<close>, or \<open>OverflowError\<close> when the duration is too
  large for a float. The route catches the exception and answers with a failure of status
  500, which is not a status of the class 4xx. Whenever the metrics are returned, the sleep
  goal is not zero and the sleep efficiency is \<open>min(100, (duration / goal) * 100)\<close> in
  Python's arithmetic; they are returned for every integer goal other than zero and hours
  from 0 to 23.
\<close>

theorem zero_goal_is_caught:
  assumes "hour_field (bedtime (profile_of b)) = Inr bh"
    and "hour_field (wakeTime (profile_of b)) = Inr wh"
  shows "(b_sleepGoal b = Some (PInt 0) \<longrightarrow>
            analyze_sleep_profile (Some b) = Failure (Caught ZeroDivisionError) 500) \<and>
         (b_sleepGoal b = Some (PFloat (Fin 0)) \<longrightarrow>
            analyze_sleep_profile (Some b) = Failure (Caught ZeroDivisionError) 500 \<or>
            analyze_sleep_profile (Some b) = Failure (Caught OverflowError) 500) \<and>
         (\<forall>m. calculate_sleep_metrics (profile_of b) = Inr m \<longrightarrow>
            exact (sleepGoal (profile_of b)) \<noteq> Fin 0 \<and>
            (\<exists>ratio percent.
               py_truediv (PInt (sleep_duration m)) (sleepGoal (profile_of b)) = Inr ratio \<and>
               py_mul ratio (PInt 100) = Inr percent \<and>
               sleep_efficiency m = py_min (PInt 100) percent)) \<and>
         (\<forall>g. b_sleepGoal b = Some (PInt g) \<and> g \<noteq> 0 \<and>
               0 \<le> bh \<and> bh \<le> 23 \<and> 0 \<le> wh \<and> wh \<le> 23 \<longrightarrow>
            (\<exists>m. calculate_sleep_metrics (profile_of b) = Inr m))"
proof -
  have 1: "b_sleepGoal b = Some (PInt 0) \<longrightarrow>
            analyze_sleep_profile (Some b) = Failure (Caught ZeroDivisionError) 500"
  proof
    assume g: "b_sleepGoal b = Some (PInt 0)"
    from metrics_zero_int [OF assms goal_given [OF g]] goal_given_not_falsy [OF g]
    show "analyze_sleep_profile (Some b) = Failure (Caught ZeroDivisionError) 500"
      by (simp add: analyze_metrics_error)
  qed
  have 2: "b_sleepGoal b = Some (PFloat (Fin 0)) \<longrightarrow>
            analyze_sleep_profile (Some b) = Failure (Caught ZeroDivisionError) 500 \<or>
            analyze_sleep_profile (Some b) = Failure (Caught OverflowError) 500"
  proof
    assume g: "b_sleepGoal b = Some (PFloat (Fin 0))"
    from metrics_zero_float [OF assms goal_given [OF g]] goal_given_not_falsy [OF g]
    show "analyze_sleep_profile (Some b) = Failure (Caught ZeroDivisionError) 500 \<or>
            analyze_sleep_profile (Some b) = Failure (Caught OverflowError) 500"
      by (auto simp: analyze_metrics_error)
  qed
  have 3: "\<forall>m. calculate_sleep_metrics (profile_of b) = Inr m \<longrightarrow>
            exact (sleepGoal (profile_of b)) \<noteq> Fin 0 \<and>
            (\<exists>ratio percent.
               py_truediv (PInt (sleep_duration m)) (sleepGoal (profile_of b)) = Inr ratio \<and>
               py_mul ratio (PInt 100) = Inr percent \<and>
               sleep_efficiency m = py_min (PInt 100) percent)"
    using metrics_nonzero metrics_efficiency by blast
  have 4: "\<forall>g. b_sleepGoal b = Some (PInt g) \<and> g \<noteq> 0 \<and>
               0 \<le> bh \<and> bh \<le> 23 \<and> 0 \<le> wh \<and> wh \<le> 23 \<longrightarrow>
            (\<exists>m. calculate_sleep_metrics (profile_of b) = Inr m)"
    using metrics_int_goal [OF assms] goal_given by blast
  from 1 2 3 4 show ?thesis by blast
qed

theorem zero_goal_is_caught_witness:
  "hour_field (bedtime (profile_of (empty_body \<lparr> b_sleepGoal := Some (PInt 0) \<rparr>))) = Inr 22 \<and>
   hour_field (wakeTime (profile_of (empty_body \<lparr> b_sleepGoal := Some (PInt 0) \<rparr>))) = Inr 6 \<and>
   analyze_sleep_profile (Some (empty_body \<lparr> b_sleepGoal := Some (PInt 0) \<rparr>)) =
     Failure (Caught ZeroDivisionError) 500 \<and>
   (analyze_sleep_profile (Some (empty_body \<lparr> b_sleepGoal := Some (PFloat (Fin 0)) \<rparr>)) =
      Failure (Caught ZeroDivisionError) 500 \<or>
    analyze_sleep_profile (Some (empty_body \<lparr> b_sleepGoal := Some (PFloat (Fin 0)) \<rparr>)) =
      Failure (Caught OverflowError) 500) \<and>
   (\<exists>m ratio percent.
      calculate_sleep_metrics (profile_of (empty_body \<lparr> b_sleepGoal := Some (PInt 3) \<rparr>)) = Inr m \<and>
      py_truediv (PInt (sleep_duration m)) (PInt 3) = Inr ratio \<and>
      py_mul ratio (PInt 100) = Inr percent \<and>
      sleep_efficiency m = py_min (PInt 100) percent)"
proof -
  define b0 where "b0 = empty_body \<lparr> b_sleepGoal := Some (PInt 0) \<rparr>"
  define bf where "bf = empty_body \<lparr> b_sleepGoal := Some (PFloat (Fin 0)) \<rparr>"
  define b3 where "b3 = empty_body \<lparr> b_sleepGoal := Some (PInt 3) \<rparr>"
  have h0: "hour_field (bedtime (profile_of b0)) = Inr 22"
           "hour_field (wakeTime (profile_of b0)) = Inr 6"
    by (simp_all add: b0_def profile_of_def empty_body_def get_def hour_field_examples)
  have hf: "hour_field (bedtime (profile_of bf)) = Inr 22"
           "hour_field (wakeTime (profile_of bf)) = Inr 6"
    by (simp_all add: bf_def profile_of_def empty_body_def get_def hour_field_examples)
  have h3: "hour_field (bedtime (profile_of b3)) = Inr 22"
           "hour_field (wakeTime (profile_of b3)) = Inr 6"
    by (simp_all add: b3_def profile_of_def empty_body_def get_def hour_field_examples)
  have g0: "b_sleepGoal b0 = Some (PInt 0)" by (simp add: b0_def)
  have gf: "b_sleepGoal bf = Some (PFloat (Fin 0))" by (simp add: bf_def)
  have g3: "b_sleepGoal b3 = Some (PInt 3) \<and> (3::int) \<noteq> 0 \<and>
      (0::int) \<le> 22 \<and> (22::int) \<le> 23 \<and> (0::int) \<le> 6 \<and> (6::int) \<le> 23"
    by (simp add: b3_def)
  have s3: "sleepGoal (profile_of b3) = PInt 3"
    by (simp add: b3_def profile_of_def get_def)
  have a: "analyze_sleep_profile (Some b0) = Failure (Caught ZeroDivisionError) 500"
    using zero_goal_is_caught [OF h0, THEN conjunct1, THEN mp, OF g0] .
  have f: "analyze_sleep_profile (Some bf) = Failure (Caught ZeroDivisionError) 500 \<or>
      analyze_sleep_profile (Some bf) = Failure (Caught OverflowError) 500"
    using zero_goal_is_caught [OF hf, THEN conjunct2, THEN conjunct1, THEN mp, OF gf] .
  have "\<exists>m. calculate_sleep_metrics (profile_of b3) = Inr m"
    using zero_goal_is_caught [OF h3, THEN conjunct2, THEN conjunct2, THEN conjunct2,
        rule_format, OF g3] .
  then obtain m where m: "calculate_sleep_metrics (profile_of b3) = Inr m" ..
  from zero_goal_is_caught [OF h3, THEN conjunct2, THEN conjunct2, THEN conjunct1,
      rule_format, OF m]
  obtain ratio percent where
    "py_truediv (PInt (sleep_duration m)) (sleepGoal (profile_of b3)) = Inr ratio"
    "py_mul ratio (PInt 100) = Inr percent"
    "sleep_efficiency m = py_min (PInt 100) percent"
    by blast
  with m s3 have c: "\<exists>m ratio percent.
      calculate_sleep_metrics (profile_of b3) = Inr m \<and>
      py_truediv (PInt (sleep_duration m)) (PInt 3) = Inr ratio \<and>
      py_mul ratio (PInt 100) = Inr percent \<and>
      sleep_efficiency m = py_min (PInt 100) percent"
    by auto
  from h0 a f c show ?thesis unfolding b0_def bf_def b3_def by blast
qed

text \<open>
  Claim C6 as stated asks for a client-fault error result. The answer to the body
  \<^verbatim>\<open>{"sleepGoal": 0}\<close> is a failure of status 500.
\<close>

theorem zero_goal_counterexample:
  "analyze_sleep_profile (Some (empty_body \<lparr> b_sleepGoal := Some (PInt 0) \<rparr>)) =
     Failure (Caught ZeroDivisionError) 500 \<and>
   \<not> client_fault (analyze_sleep_profile (Some (empty_body \<lparr> b_sleepGoal := Some (PInt 0) \<rparr>)))"
proof -
  define b0 where "b0 = empty_body \<lparr> b_sleepGoal := Some (PInt 0) \<rparr>"
  have h0: "hour_field (bedtime (profile_of b0)) = Inr 22"
           "hour_field (wakeTime (profile_of b0)) = Inr 6"
    by (simp_all add: b0_def profile_of_def empty_body_def get_def hour_field_examples)
  have g0: "b_sleepGoal b0 = Some (PInt 0)" by (simp add: b0_def)
  have "calculate_sleep_metrics (profile_of b0) = Inl ZeroDivisionError"
    using metrics_zero_int [OF h0 goal_given [OF g0]] .
  then have a: "analyze_sleep_profile (Some b0) = Failure (Caught ZeroDivisionError) 500"
    using goal_given_not_falsy [OF g0] by (simp add: analyze_metrics_error)
  then have "\<not> client_fault (analyze_sleep_profile (Some b0))"
    by (simp add: client_fault_def)
  with a show ?thesis unfolding b0_def by blast
qed

section \<open>Facts about the time-offset helper\<close>

lemma hour_down_eq: "hour_down h = (if 24 \<le> h then h mod 24 else h)"
proof (induction h rule: hour_down.induct)
  case (1 hour)
  show ?case
  proof (cases "24 \<le> hour")
    case True
    then have "hour_down hour = hour_down (hour - 24)" by (simp add: hour_down.simps [of hour])
    also have "\<dots> = (if 24 \<le> hour - 24 then (hour - 24) mod 24 else hour - 24)"
      using 1 True by simp
    also have "\<dots> = hour mod 24"
    proof (cases "24 \<le> hour - 24")
      case True
      then show ?thesis by (simp only: if_True minus_mod_self2)
    next
      case False
      with \<open>24 \<le> hour\<close> have "0 \<le> hour - 24" "hour - 24 < 24" by simp_all
      then have a: "(hour - 24) mod 24 = hour - 24" by (rule mod_pos_pos_trivial)
      have b: "(hour - 24) mod 24 = hour mod 24" by (rule minus_mod_self2)
      from False show ?thesis by (simp only: if_False trans [OF b [symmetric] a])
    qed
    finally show ?thesis using True by simp
  next
    case False
    then show ?thesis by (simp add: hour_down.simps [of hour])
  qed
qed

lemma hour_up_eq: "hour_up h = (if h < 0 then h mod 24 else h)"
proof (induction h rule: hour_up.induct)
  case (1 hour)
  show ?case
  proof (cases "hour < 0")
    case True
    then have "hour_up hour = hour_up (hour + 24)" by (simp add: hour_up.simps [of hour])
    also have "\<dots> = (if hour + 24 < 0 then (hour + 24) mod 24 else hour + 24)"
      using 1 True by simp
    also have "\<dots> = hour mod 24"
    proof (cases "hour + 24 < 0")
      case True
      then show ?thesis by (simp only: if_True mod_add_self2)
    next
      case False
      with \<open>hour < 0\<close> have "0 \<le> hour + 24" "hour + 24 < 24" by simp_all
      then have a: "(hour + 24) mod 24 = hour + 24" by (rule mod_pos_pos_trivial)
      have b: "(hour + 24) mod 24 = hour mod 24" by (rule mod_add_self2)
      from False show ?thesis by (simp only: if_False trans [OF b [symmetric] a])
    qed
    finally show ?thesis using True by simp
  next
    case False
    then show ?thesis by (simp add: hour_up.simps [of hour])
  qed
qed

lemma hour_norm: "hour_up (hour_down h) = h mod 24"
proof -
  have "0 \<le> h mod 24" "h mod 24 < 24" by simp_all
  then show ?thesis by (auto simp: hour_down_eq hour_up_eq)
qed

lemma time_offset_in_range:
  assumes "hour_field t = Inr h" "minute_field t = Inr m" "0 \<le> m + mo" "m + mo < 60"
  shows "calculate_time_offset t ho mo = Inr (fmt02d ((h + ho) mod 24) @ '':'' @ fmt02d (m + mo))"
  using assms
  by (simp add: calculate_time_offset_def hour_norm minute_carry_def minute_borrow_def)

lemma time_offset_total:
  assumes "hour_field t = Inr h" "minute_field t = Inr m"
  shows "\<exists>s. calculate_time_offset t ho mo = Inr s"
  using assms by (simp add: calculate_time_offset_def Let_def split: prod.splits)

lemma time_offset_error:
  assumes "isl (hour_field t) \<or> isl (minute_field t)"
  shows "\<exists>e. calculate_time_offset t ho mo = Inl e"
  using assms
  by (cases "hour_field t"; cases "minute_field t") (auto simp: calculate_time_offset_def)

section \<open>The recommendation list\<close>

lemma issue_loop_filter:
  "issue_loop p issues acc =
   issue_loop p (filter (\<lambda>i. i = ''anxiety'' \<or> i = ''temperature'') issues) acc"
  by (induction issues arbitrary: acc) (auto split: sum.splits)

lemma issue_loop_bedtime:
  "bedtime p = bedtime p' \<Longrightarrow> issue_loop p issues acc = issue_loop p' issues acc"
  by (induction issues arbitrary: acc) (auto split: sum.splits)

lemma issue_loop_total:
  assumes "hour_field (bedtime p) = Inr h" "minute_field (bedtime p) = Inr m"
  shows "\<exists>rest. issue_loop p issues acc = Inr (acc @ rest) \<and>
           list_all (\<lambda>r. ident r = ''anxiety-relief'' \<or> ident r = ''temperature-control'') rest \<and>
           length rest = length (filter (\<lambda>i. i = ''anxiety'' \<or> i = ''temperature'') issues)"
proof (induction issues arbitrary: acc)
  case Nil
  then show ?case by simp
next
  case (Cons issue issues)
  consider "issue = ''anxiety''" | "issue = ''temperature''"
    | "issue \<noteq> ''anxiety''" "issue \<noteq> ''temperature''" by blast
  then show ?case
  proof cases
    case 1
    from time_offset_total [OF assms] obtain t where
      t: "calculate_time_offset (bedtime p) (- 1) 30 = Inr t" by blast
    define r where "r = \<lparr> ident = ''anxiety-relief'', title = ''Anxiety Management'',
        description = ''Practice deep breathing or meditation'', time = t,
        priority = ''high'', category = ''mental-health'' \<rparr>"
    from Cons [of "acc @ [r]"] obtain rest where
      rest: "issue_loop p issues (acc @ [r]) = Inr ((acc @ [r]) @ rest)"
        "list_all (\<lambda>r. ident r = ''anxiety-relief'' \<or> ident r = ''temperature-control'') rest"
        "length rest = length (filter (\<lambda>i. i = ''anxiety'' \<or> i = ''temperature'') issues)"
      by blast
    have "issue_loop p (issue # issues) acc = Inr (acc @ (r # rest))"
      using 1 t rest(1) by (simp add: r_def)
    moreover have "list_all (\<lambda>r. ident r = ''anxiety-relief'' \<or> ident r = ''temperature-control'') (r # rest)"
      using rest(2) by (simp add: r_def)
    moreover have "length (r # rest) =
        length (filter (\<lambda>i. i = ''anxiety'' \<or> i = ''temperature'') (issue # issues))"
      using 1 rest(3) by simp
    ultimately show ?thesis by blast
  next
    case 2
    from time_offset_total [OF assms] obtain t where
      t: "calculate_time_offset (bedtime p) (- 1) 0 = Inr t" by blast
    define r where "r = \<lparr> ident = ''temperature-control'', title = ''Temperature Optimization'',
        description = ''Set bedroom to 65-68''
           @ [char_of (195 :: nat), char_of (130 :: nat), char_of (194 :: nat), char_of (176 :: nat)]
           @ ''F'',
        time = t, priority = ''high'', category = ''environment'' \<rparr>"
    from Cons [of "acc @ [r]"] obtain rest where
      rest: "issue_loop p issues (acc @ [r]) = Inr ((acc @ [r]) @ rest)"
        "list_all (\<lambda>r. ident r = ''anxiety-relief'' \<or> ident r = ''temperature-control'') rest"
        "length rest = length (filter (\<lambda>i. i = ''anxiety'' \<or> i = ''temperature'') issues)"
      by blast
    have "issue_loop p (issue # issues) acc = Inr (acc @ (r # rest))"
      using 2 t rest(1) by (simp add: r_def)
    moreover have "list_all (\<lambda>r. ident r = ''anxiety-relief'' \<or> ident r = ''temperature-control'') (r # rest)"
      using rest(2) by (simp add: r_def)
    moreover have "length (r # rest) =
        length (filter (\<lambda>i. i = ''anxiety'' \<or> i = ''temperature'') (issue # issues))"
      using 2 rest(3) by simp
    ultimately show ?thesis by blast
  next
    case 3
    with Cons [of acc] show ?thesis by simp
  qed
qed

lemma generate_error:
  assumes "isl (hour_field (bedtime p)) \<or> isl (minute_field (bedtime p))"
  shows "\<exists>e. generate_ai_recommendations p a = Inl e"
proof -
  from time_offset_error [OF assms] obtain e where
    "calculate_time_offset (bedtime p) (- 2) 0 = Inl e" by blast
  then show ?thesis by (simp add: generate_ai_recommendations_def)
qed

lemma generate_total:
  assumes "hour_field (bedtime p) = Inr h" "minute_field (bedtime p) = Inr m"
  shows "\<exists>rs. generate_ai_recommendations p a = Inr rs"
proof -
  from time_offset_total [OF assms] obtain t1 where
    t1: "calculate_time_offset (bedtime p) (- 2) 0 = Inr t1" by blast
  from time_offset_total [OF assms] obtain t2 where
    t2: "calculate_time_offset (bedtime p) (- 1) 0 = Inr t2" by blast
  from issue_loop_total [OF assms] t1 t2 show ?thesis
    by (simp add: generate_ai_recommendations_def) blast
qed

text \<open>
  Claim C8. For every profile whose bedtime has an integer hour field \<open>h\<close> and an integer
  minute field \<open>m\<close> from 0 to 59, the list of recommendations starts with \<open>Wind-down
  Routine\<close> at \<open>(h - 2) mod 24\<close> hours \<open>m\<close> and \<open>Digital Sunset\<close> at \<open>(h - 1) mod 24\<close>
  hours \<open>m\<close>, both of priority \<open>high\<close>; every entry after these two comes from an issue
  tag (its id is \<open>anxiety-relief\<close> or \<open>temperature-control\<close>), one for each occurrence of
  a known tag. For every profile, the result with the unknown tags is the result without
  them: they add no entry and raise nothing.
\<close>

theorem base_recommendations:
  assumes "hour_field (bedtime p) = Inr h" and "minute_field (bedtime p) = Inr m"
    and "0 \<le> m" and "m < 60"
  shows "(\<exists>rest.
            generate_ai_recommendations p analysis =
              Inr (\<lparr> ident = ''wind-down'', title = ''Wind-down Routine'',
                      description = ''Begin relaxing activities 1-2 hours before bed'',
                      time = fmt02d ((h - 2) mod 24) @ '':'' @ fmt02d m,
                      priority = ''high'', category = ''routine'' \<rparr> #
                   \<lparr> ident = ''screen-cutoff'', title = ''Digital Sunset'',
                      description = ''Turn off screens and blue light devices'',
                      time = fmt02d ((h - 1) mod 24) @ '':'' @ fmt02d m,
                      priority = ''high'', category = ''environment'' \<rparr> # rest) \<and>
            list_all (\<lambda>r. ident r = ''anxiety-relief'' \<or> ident r = ''temperature-control'') rest \<and>
            length rest =
              length (filter (\<lambda>i. i = ''anxiety'' \<or> i = ''temperature'') (sleepIssues p))) \<and>
         generate_ai_recommendations p analysis =
           generate_ai_recommendations
             (p \<lparr> sleepIssues := filter (\<lambda>i. i = ''anxiety'' \<or> i = ''temperature'') (sleepIssues p) \<rparr>)
             analysis"
proof -
  have t1: "calculate_time_offset (bedtime p) (- 2) 0 =
      Inr (fmt02d ((h - 2) mod 24) @ '':'' @ fmt02d m)"
    using time_offset_in_range [OF assms(1,2), of 0 "- 2"] assms(3,4) by simp
  have t2: "calculate_time_offset (bedtime p) (- 1) 0 =
      Inr (fmt02d ((h - 1) mod 24) @ '':'' @ fmt02d m)"
    using time_offset_in_range [OF assms(1,2), of 0 "- 1"] assms(3,4) by simp
  have 1: "\<exists>rest.
            generate_ai_recommendations p analysis =
              Inr (\<lparr> ident = ''wind-down'', title = ''Wind-down Routine'',
                      description = ''Begin relaxing activities 1-2 hours before bed'',
                      time = fmt02d ((h - 2) mod 24) @ '':'' @ fmt02d m,
                      priority = ''high'', category = ''routine'' \<rparr> #
                   \<lparr> ident = ''screen-cutoff'', title = ''Digital Sunset'',
                      description = ''Turn off screens and blue light devices'',
                      time = fmt02d ((h - 1) mod 24) @ '':'' @ fmt02d m,
                      priority = ''high'', category = ''environment'' \<rparr> # rest) \<and>
            list_all (\<lambda>r. ident r = ''anxiety-relief'' \<or> ident r = ''temperature-control'') rest \<and>
            length rest =
              length (filter (\<lambda>i. i = ''anxiety'' \<or> i = ''temperature'') (sleepIssues p))"
  proof -
    define wd where "wd = \<lparr> ident = ''wind-down'', title = ''Wind-down Routine'',
        description = ''Begin relaxing activities 1-2 hours before bed'',
        time = fmt02d ((h - 2) mod 24) @ '':'' @ fmt02d m,
        priority = ''high'', category = ''routine'' \<rparr>"
    define ds where "ds = \<lparr> ident = ''screen-cutoff'', title = ''Digital Sunset'',
        description = ''Turn off screens and blue light devices'',
        time = fmt02d ((h - 1) mod 24) @ '':'' @ fmt02d m,
        priority = ''high'', category = ''environment'' \<rparr>"
    from issue_loop_total [OF assms(1,2), of "sleepIssues p" "[wd] @ [ds]"] obtain rest where
      rest: "issue_loop p (sleepIssues p) ([wd] @ [ds]) = Inr (([wd] @ [ds]) @ rest)"
        "list_all (\<lambda>r. ident r = ''anxiety-relief'' \<or> ident r = ''temperature-control'') rest"
        "length rest =
           length (filter (\<lambda>i. i = ''anxiety'' \<or> i = ''temperature'') (sleepIssues p))"
      by blast
    have "generate_ai_recommendations p analysis = Inr (wd # ds # rest)"
      using rest(1) by (simp add: generate_ai_recommendations_def t1 t2 wd_def ds_def)
    with rest(2,3) show ?thesis unfolding wd_def ds_def by blast
  qed
  have 2: "generate_ai_recommendations p analysis =
           generate_ai_recommendations
             (p \<lparr> sleepIssues := filter (\<lambda>i. i = ''anxiety'' \<or> i = ''temperature'') (sleepIssues p) \<rparr>)
             analysis"
    using issue_loop_filter [of p "sleepIssues p"]
      issue_loop_bedtime [of p "p \<lparr> sleepIssues := filter (\<lambda>i. i = ''anxiety'' \<or> i = ''temperature'') (sleepIssues p) \<rparr>"]
    by (simp add: generate_ai_recommendations_def split: sum.splits)
  from 1 2 show ?thesis by blast
qed

theorem base_recommendations_witness:
  "hour_field ''22:30'' = Inr 22 \<and> minute_field ''22:30'' = Inr 30 \<and>
   generate_ai_recommendations
     \<lparr> bedtime = ''22:30'', wakeTime = ''06:30'', sleepGoal = PInt 8,
       lifestyle = ''moderate'', sleepIssues = [''xyz''] \<rparr>
     \<lparr> sleep_duration = 8, sleep_debt = PInt 0, sleep_efficiency = PInt 100,
       circadian_alignment = 100 \<rparr> =
   Inr [\<lparr> ident = ''wind-down'', title = ''Wind-down Routine'',
          description = ''Begin relaxing activities 1-2 hours before bed'',
          time = ''20:30'', priority = ''high'', category = ''routine'' \<rparr>,
        \<lparr> ident = ''screen-cutoff'', title = ''Digital Sunset'',
          description = ''Turn off screens and blue light devices'',
          time = ''21:30'', priority = ''high'', category = ''environment'' \<rparr>]"
proof -
  define p where "p = \<lparr> bedtime = ''22:30'', wakeTime = ''06:30'', sleepGoal = PInt 8,
       lifestyle = ''moderate'', sleepIssues = [''xyz''] \<rparr>"
  define a where "a = \<lparr> sleep_duration = 8, sleep_debt = PInt 0, sleep_efficiency = PInt 100,
       circadian_alignment = 100 \<rparr>"
  have hm: "hour_field ''22:30'' = Inr 22" "minute_field ''22:30'' = Inr 30"
    by code_simp+
  have h: "hour_field (bedtime p) = Inr 22" "minute_field (bedtime p) = Inr 30"
    by (simp_all add: p_def hm)
  have t: "fmt02d ((22 - 2) mod 24) @ '':'' @ fmt02d 30 = ''20:30''"
          "fmt02d ((22 - 1) mod 24) @ '':'' @ fmt02d 30 = ''21:30''"
    by code_simp+
  have n: "length (filter (\<lambda>i. i = ''anxiety'' \<or> i = ''temperature'') (sleepIssues p)) = 0"
    by (simp add: p_def)
  from base_recommendations [OF h, of a, THEN conjunct1] obtain rest where
    r: "generate_ai_recommendations p a =
          Inr (\<lparr> ident = ''wind-down'', title = ''Wind-down Routine'',
                  description = ''Begin relaxing activities 1-2 hours before bed'',
                  time = fmt02d ((22 - 2) mod 24) @ '':'' @ fmt02d 30,
                  priority = ''high'', category = ''routine'' \<rparr> #
               \<lparr> ident = ''screen-cutoff'', title = ''Digital Sunset'',
                  description = ''Turn off screens and blue light devices'',
                  time = fmt02d ((22 - 1) mod 24) @ '':'' @ fmt02d 30,
                  priority = ''high'', category = ''environment'' \<rparr> # rest)"
      and l: "length rest =
          length (filter (\<lambda>i. i = ''anxiety'' \<or> i = ''temperature'') (sleepIssues p))"
    by auto
  from l n have "rest = []" by simp
  with r have "generate_ai_recommendations p a =
       Inr [\<lparr> ident = ''wind-down'', title = ''Wind-down Routine'',
              description = ''Begin relaxing activities 1-2 hours before bed'',
              time = ''20:30'', priority = ''high'', category = ''routine'' \<rparr>,
            \<lparr> ident = ''screen-cutoff'', title = ''Digital Sunset'',
              description = ''Turn off screens and blue light devices'',
              time = ''21:30'', priority = ''high'', category = ''environment'' \<rparr>]"
    by (simp only: t)
  with hm show ?thesis unfolding p_def a_def by blast
qed

section \<open>Time strings that do not parse\<close>

lemma analyze_recommendation_error:
  assumes "\<not> falsy (Some b)" "calculate_sleep_metrics (profile_of b) = Inr m"
    and "generate_ai_recommendations (profile_of b) m = Inl e"
  shows "analyze_sleep_profile (Some b) = Failure (Caught e) 500"
  using assms by (simp add: analyze_sleep_profile_def Let_def)

lemma analyze_success:
  assumes "\<not> falsy (Some b)" "calculate_sleep_metrics (profile_of b) = Inr m"
    and "generate_ai_recommendations (profile_of b) m = Inr rs"
  shows "analyze_sleep_profile (Some b) = Success (profile_of b, m, rs)"
  using assms by (simp add: analyze_sleep_profile_def Let_def)

lemma metrics_hour_error:
  assumes "isl (hour_field (bedtime p)) \<or> isl (hour_field (wakeTime p))"
  shows "\<exists>e. calculate_sleep_metrics p = Inl e"
  using assms
  by (cases "hour_field (bedtime p)"; cases "hour_field (wakeTime p)")
     (auto simp: calculate_sleep_metrics_def Let_def)

lemma split_colon_nonempty: "split_colon s \<noteq> []"
  by (induction s) (auto split: list.splits)

lemma hour_field_hd: "hour_field t = py_int (hd (split_colon t))"
  using split_colon_nonempty [of t]
  by (simp add: hour_field_def index_def hd_conv_nth)

lemma metrics_wake_first_field:
  assumes "hd (split_colon w) = hd (split_colon (wakeTime p))"
  shows "calculate_sleep_metrics (p \<lparr> wakeTime := w \<rparr>) = calculate_sleep_metrics p"
proof -
  have "hour_field w = hour_field (wakeTime p)"
    using assms by (simp only: hour_field_hd)
  then show ?thesis by (simp add: calculate_sleep_metrics_def cong: sum.case_cong)
qed

lemma recommendations_wake:
  "generate_ai_recommendations (p \<lparr> wakeTime := w \<rparr>) a = generate_ai_recommendations p a"
  using issue_loop_bedtime [of "p \<lparr> wakeTime := w \<rparr>" p]
  by (simp add: generate_ai_recommendations_def cong: sum.case_cong)

text \<open>
  Claim C5, as the code has it. Take a body that is not empty, with fields of the types of
  the data model and time strings in ASCII. Of the two time strings the evaluation reads
  three fields: the first and the second colon-separated field of the bedtime and the
  first field of the wake time. When one of the three is missing or is not an integer
  literal, the route answers with a failure of status 500 that carries the exception
  caught: not a success, and not a status of the class 4xx. What follows the first field
  of the wake time is never read: a wake time with the same first field gives the same
  metrics and the same recommendations.
\<close>

theorem unparseable_time_is_caught:
  assumes "\<not> falsy (Some b)"
    and "ascii (bedtime (profile_of b))" and "ascii (wakeTime (profile_of b))"
  shows "(isl (hour_field (bedtime (profile_of b))) \<or>
          isl (minute_field (bedtime (profile_of b))) \<or>
          isl (hour_field (wakeTime (profile_of b))) \<longrightarrow>
            (\<exists>e. analyze_sleep_profile (Some b) = Failure (Caught e) 500)) \<and>
         (\<forall>w analysis.
            hd (split_colon w) = hd (split_colon (wakeTime (profile_of b))) \<longrightarrow>
              calculate_sleep_metrics ((profile_of b) \<lparr> wakeTime := w \<rparr>) =
                calculate_sleep_metrics (profile_of b) \<and>
              generate_ai_recommendations ((profile_of b) \<lparr> wakeTime := w \<rparr>) analysis =
                generate_ai_recommendations (profile_of b) analysis)"
proof -
  define p where "p = profile_of b"
  have 1: "\<exists>e. analyze_sleep_profile (Some b) = Failure (Caught e) 500"
    if bad: "isl (hour_field (bedtime p)) \<or> isl (minute_field (bedtime p)) \<or>
             isl (hour_field (wakeTime p))"
  proof (cases "calculate_sleep_metrics p")
    case (Inl e)
    with assms(1) show ?thesis unfolding p_def by (auto simp: analyze_metrics_error)
  next
    case (Inr m)
    with metrics_hour_error [of p] have "\<not> isl (hour_field (bedtime p))"
      "\<not> isl (hour_field (wakeTime p))" by auto
    with bad have "isl (minute_field (bedtime p))" by blast
    then obtain e where "generate_ai_recommendations p m = Inl e"
      using generate_error [of p m] by blast
    with assms(1) Inr show ?thesis unfolding p_def by (auto simp: analyze_recommendation_error)
  qed
  have 2: "calculate_sleep_metrics (p \<lparr> wakeTime := w \<rparr>) = calculate_sleep_metrics p \<and>
      generate_ai_recommendations (p \<lparr> wakeTime := w \<rparr>) analysis =
        generate_ai_recommendations p analysis"
    if "hd (split_colon w) = hd (split_colon (wakeTime p))" for w analysis
    using metrics_wake_first_field [OF that] recommendations_wake [where p = p and w = w and a = analysis] by simp
  from 1 2 show ?thesis unfolding p_def by blast
qed

theorem unparseable_time_is_caught_witness:
  "\<not> falsy (Some (empty_body \<lparr> b_bedtime := Some ''abc'' \<rparr>)) \<and>
   ascii ''abc'' \<and> ascii ''06:00'' \<and>
   isl (hour_field (bedtime (profile_of (empty_body \<lparr> b_bedtime := Some ''abc'' \<rparr>)))) \<and>
   (\<exists>e. analyze_sleep_profile (Some (empty_body \<lparr> b_bedtime := Some ''abc'' \<rparr>)) =
      Failure (Caught e) 500) \<and>
   \<not> falsy (Some (empty_body \<lparr> b_bedtime := Some ''22:00'' \<rparr>)) \<and>
   ascii ''22:00'' \<and>
   hd (split_colon ''06'') = hd (split_colon ''06:00'') \<and>
   calculate_sleep_metrics ((profile_of (empty_body \<lparr> b_bedtime := Some ''22:00'' \<rparr>)) \<lparr> wakeTime := ''06'' \<rparr>) =
     calculate_sleep_metrics (profile_of (empty_body \<lparr> b_bedtime := Some ''22:00'' \<rparr>))"
proof -
  define b where "b = empty_body \<lparr> b_bedtime := Some ''abc'' \<rparr>"
  define c where "c = empty_body \<lparr> b_bedtime := Some ''22:00'' \<rparr>"
  have nf: "\<not> falsy (Some b)" by (simp add: b_def falsy_def empty_body_def)
  have nc: "\<not> falsy (Some c)" by (simp add: c_def falsy_def empty_body_def)
  have a: "ascii ''abc''" "ascii ''06:00''" "ascii ''22:00''"
    by (simp_all add: ascii_def)
  have pb: "bedtime (profile_of b) = ''abc''" "wakeTime (profile_of b) = ''06:00''"
    by (simp_all add: b_def profile_of_def empty_body_def get_def)
  have pc: "bedtime (profile_of c) = ''22:00''" "wakeTime (profile_of c) = ''06:00''"
    by (simp_all add: c_def profile_of_def empty_body_def get_def)
  have ab: "ascii (bedtime (profile_of b))" "ascii (wakeTime (profile_of b))"
    by (simp_all only: pb a)
  have ac: "ascii (bedtime (profile_of c))" "ascii (wakeTime (profile_of c))"
    by (simp_all only: pc a)
  have "hour_field ''abc'' = Inl ValueError" by code_simp
  then have bad: "isl (hour_field (bedtime (profile_of b)))"
    by (simp add: pb)
  then have 1: "\<exists>e. analyze_sleep_profile (Some b) = Failure (Caught e) 500"
    using unparseable_time_is_caught [OF nf ab, THEN conjunct1] by blast
  have h: "hd (split_colon ''06'') = hd (split_colon ''06:00'')"
    by code_simp
  then have h': "hd (split_colon ''06'') = hd (split_colon (wakeTime (profile_of c)))"
    by (simp only: pc)
  have 2: "calculate_sleep_metrics ((profile_of c) \<lparr> wakeTime := ''06'' \<rparr>) =
      calculate_sleep_metrics (profile_of c)"
    using unparseable_time_is_caught [OF nc ac, THEN conjunct2, rule_format, OF h',
        THEN conjunct1] .
  from nf a(1,2) bad 1 nc a(3) h 2 show ?thesis
    unfolding b_def c_def
    apply (intro conjI)
            apply assumption+
    done
qed

text \<open>
  Claim C5 as stated fails twice. The wake time \<open>06\<close> is not two colon-separated
  integers, and the body \<^verbatim>\<open>{"wakeTime": "06"}\<close> is answered with a success: the hour 6 is
  taken from it. The bedtime \<open>abc\<close> is answered with a failure, of status 500.
\<close>

theorem unparseable_time_counterexample:
  "\<not> two_colon_integers ''06'' \<and>
   succeeded (analyze_sleep_profile (Some (empty_body \<lparr> b_wakeTime := Some ''06'' \<rparr>))) \<and>
   \<not> two_colon_integers ''abc'' \<and>
   analyze_sleep_profile (Some (empty_body \<lparr> b_bedtime := Some ''abc'' \<rparr>)) =
     Failure (Caught ValueError) 500 \<and>
   \<not> client_fault (analyze_sleep_profile (Some (empty_body \<lparr> b_bedtime := Some ''abc'' \<rparr>)))"
proof -
  define b where "b = empty_body \<lparr> b_wakeTime := Some ''06'' \<rparr>"
  define c where "c = empty_body \<lparr> b_bedtime := Some ''abc'' \<rparr>"
  have t: "\<not> two_colon_integers ''06''" "\<not> two_colon_integers ''abc''"
    by code_simp+
  have nb: "\<not> falsy (Some b)" by (simp add: b_def falsy_def empty_body_def)
  have nc: "\<not> falsy (Some c)" by (simp add: c_def falsy_def empty_body_def)
  have pb: "bedtime (profile_of b) = ''22:00''" "wakeTime (profile_of b) = ''06''"
    "sleepGoal (profile_of b) = PInt 8"
    by (simp_all add: b_def profile_of_def empty_body_def get_def)
  have f: "hour_field ''22:00'' = Inr 22" "minute_field ''22:00'' = Inr 0"
    "hour_field ''06'' = Inr 6"
    by code_simp+
  have "\<exists>m. calculate_sleep_metrics (profile_of b) = Inr m"
    by (rule metrics_int_goal [where bh = 22 and wh = 6 and g = 8]) (simp_all add: pb f)
  then obtain m where m: "calculate_sleep_metrics (profile_of b) = Inr m" ..
  have "\<exists>rs. generate_ai_recommendations (profile_of b) m = Inr rs"
    by (rule generate_total [where h = 22 and m = 0]) (simp_all add: pb f)
  then obtain rs where "generate_ai_recommendations (profile_of b) m = Inr rs" ..
  with nb m have s: "succeeded (analyze_sleep_profile (Some b))"
    by (simp add: analyze_success succeeded_def)
  have "hour_field ''abc'' = Inl ValueError" by code_simp
  then have "calculate_sleep_metrics (profile_of c) = Inl ValueError"
    by (simp add: calculate_sleep_metrics_def c_def profile_of_def empty_body_def get_def)
  with nc have a: "analyze_sleep_profile (Some c) = Failure (Caught ValueError) 500"
    by (simp add: analyze_metrics_error)
  then have "\<not> client_fault (analyze_sleep_profile (Some c))"
    by (simp add: client_fault_def)
  with t s a show ?thesis unfolding b_def c_def by blast
qed

section \<open>The recommendations for the issue tags\<close>

lemma clock_split:
  fixes x r :: int
  assumes "0 \<le> r" "r < 60"
  shows "(x * 60 + r) mod 1440 div 60 = x mod 24" and "(x * 60 + r) mod 1440 mod 60 = r"
proof -
  define q where "q = x mod 24"
  have q: "0 \<le> q" "q < 24" by (simp_all add: q_def)
  have x: "x = 24 * (x div 24) + q" by (simp add: q_def)
  have "x * 60 + r = (60 * q + r) + (x div 24) * 1440"
    by (subst x) (simp add: algebra_simps)
  then have "(x * 60 + r) mod 1440 = (60 * q + r) mod 1440"
    by (simp only: mod_mult_self1)
  also have "\<dots> = 60 * q + r"
    using q assms by (intro mod_pos_pos_trivial) simp_all
  finally have t: "(x * 60 + r) mod 1440 = 60 * q + r" .
  have "(60 * q + r) div 60 = q" using assms by simp
  then show "(x * 60 + r) mod 1440 div 60 = x mod 24" by (simp only: t q_def)
  have "(60 * q + r) mod 60 = r" using assms by simp
  then show "(x * 60 + r) mod 1440 mod 60 = r" by (simp only: t)
qed

lemma before_split:
  assumes "0 \<le> r" "r < 60" "h * 60 + m - k = x * 60 + r"
  shows "before h m k = fmt02d (x mod 24) @ '':'' @ fmt02d r"
  unfolding before_def Let_def assms(3) using clock_split [OF assms(1,2), of x] by simp

lemma time_offset_hour_before:
  assumes "hour_field t = Inr h" "minute_field t = Inr m" "0 \<le> m" "m < 60"
  shows "calculate_time_offset t (- 1) 0 = Inr (before h m 60)"
proof -
  have "before h m 60 = fmt02d ((h - 1) mod 24) @ '':'' @ fmt02d m"
    using assms(3,4) by (intro before_split) (simp_all add: algebra_simps)
  with time_offset_in_range [OF assms(1,2), of 0 "- 1"] assms(3,4) show ?thesis by simp
qed

lemma time_offset_half_hour_before:
  assumes "hour_field t = Inr h" "minute_field t = Inr m" "0 \<le> m" "m < 60"
    and "h mod 24 \<noteq> 0 \<or> m < 30"
  shows "calculate_time_offset t (- 1) 30 = Inr (before h m 30)"
proof (cases "m < 30")
  case True
  have "before h m 30 = fmt02d ((h - 1) mod 24) @ '':'' @ fmt02d (m + 30)"
    using assms(3) True by (intro before_split) (simp_all add: algebra_simps)
  with time_offset_in_range [OF assms(1,2), of 30 "- 1"] assms(3) True show ?thesis by simp
next
  case False
  with assms(5) have h: "h mod 24 \<noteq> 0" by simp
  have b: "before h m 30 = fmt02d (h mod 24) @ '':'' @ fmt02d (m - 30)"
    using assms(4) False by (intro before_split) (simp_all add: algebra_simps)
  have "0 < h mod 24" using h pos_mod_sign [of 24 h] by linarith
  then have "(h - 1) mod 24 = h mod 24 - 1"
    using mod_diff_left_eq [of h 24 1, symmetric] pos_mod_bound [of 24 h]
    by (simp add: mod_pos_pos_trivial)
  then have c: "(h - 1) mod 24 + 1 = h mod 24" by simp
  show ?thesis
    using assms(1,2,4) False
    by (simp add: calculate_time_offset_def hour_norm minute_carry_def minute_borrow_def b c)
qed

lemma issue_loop_exact:
  assumes "calculate_time_offset (bedtime p) (- 1) 30 = Inr ta"
    and "calculate_time_offset (bedtime p) (- 1) 0 = Inr tt"
  shows "\<exists>rest. issue_loop p issues acc = Inr (acc @ rest) \<and>
           map ident rest =
             map (\<lambda>i. if i = ''anxiety'' then ''anxiety-relief'' else ''temperature-control'')
               (filter (\<lambda>i. i = ''anxiety'' \<or> i = ''temperature'') issues) \<and>
           (\<forall>r \<in> set rest. time r = (if ident r = ''anxiety-relief'' then ta else tt))"
proof (induction issues arbitrary: acc)
  case Nil
  then show ?case by simp
next
  case (Cons issue issues)
  consider "issue = ''anxiety''" | "issue = ''temperature''"
    | "issue \<noteq> ''anxiety''" "issue \<noteq> ''temperature''" by blast
  then show ?case
  proof cases
    case 1
    define r where "r = \<lparr> ident = ''anxiety-relief'', title = ''Anxiety Management'',
        description = ''Practice deep breathing or meditation'', time = ta,
        priority = ''high'', category = ''mental-health'' \<rparr>"
    from Cons [of "acc @ [r]"] obtain rest where
      rest: "issue_loop p issues (acc @ [r]) = Inr ((acc @ [r]) @ rest)"
        "map ident rest =
           map (\<lambda>i. if i = ''anxiety'' then ''anxiety-relief'' else ''temperature-control'')
             (filter (\<lambda>i. i = ''anxiety'' \<or> i = ''temperature'') issues)"
        "\<forall>r \<in> set rest. time r = (if ident r = ''anxiety-relief'' then ta else tt)"
      by blast
    have "issue_loop p (issue # issues) acc = Inr (acc @ (r # rest))"
      using 1 assms(1) rest(1) by (simp add: r_def)
    moreover have "map ident (r # rest) =
           map (\<lambda>i. if i = ''anxiety'' then ''anxiety-relief'' else ''temperature-control'')
             (filter (\<lambda>i. i = ''anxiety'' \<or> i = ''temperature'') (issue # issues))"
      using 1 rest(2) by (simp add: r_def)
    moreover have "\<forall>x \<in> set (r # rest). time x = (if ident x = ''anxiety-relief'' then ta else tt)"
      using rest(3) by (simp add: r_def)
    ultimately show ?thesis by blast
  next
    case 2
    define r where "r = \<lparr> ident = ''temperature-control'', title = ''Temperature Optimization'',
        description = ''Set bedroom to 65-68''
           @ [char_of (195 :: nat), char_of (130 :: nat), char_of (194 :: nat), char_of (176 :: nat)]
           @ ''F'',
        time = tt, priority = ''high'', category = ''environment'' \<rparr>"
    from Cons [of "acc @ [r]"] obtain rest where
      rest: "issue_loop p issues (acc @ [r]) = Inr ((acc @ [r]) @ rest)"
        "map ident rest =
           map (\<lambda>i. if i = ''anxiety'' then ''anxiety-relief'' else ''temperature-control'')
             (filter (\<lambda>i. i = ''anxiety'' \<or> i = ''temperature'') issues)"
        "\<forall>r \<in> set rest. time r = (if ident r = ''anxiety-relief'' then ta else tt)"
      by blast
    have "issue_loop p (issue # issues) acc = Inr (acc @ (r # rest))"
      using 2 assms(2) rest(1) by (simp add: r_def)
    moreover have "map ident (r # rest) =
           map (\<lambda>i. if i = ''anxiety'' then ''anxiety-relief'' else ''temperature-control'')
             (filter (\<lambda>i. i = ''anxiety'' \<or> i = ''temperature'') (issue # issues))"
      using 2 rest(2) by (simp add: r_def)
    moreover have "\<forall>x \<in> set (r # rest). time x = (if ident x = ''anxiety-relief'' then ta else tt)"
      using rest(3) by (simp add: r_def)
    ultimately show ?thesis by blast
  next
    case 3
    with Cons [of acc] show ?thesis by simp
  qed
qed

text \<open>
  Claim C3, as the code has it. Let the bedtime have an integer hour field \<open>h\<close> and an
  integer minute field \<open>m\<close> from 0 to 59. After the two base recommendations the list has
  exactly one entry for each occurrence of a known tag, in the order of the tags: id
  \<open>anxiety-relief\<close> for \<open>anxiety\<close>, id \<open>temperature-control\<close> for \<open>temperature\<close>. An
  entry for \<open>temperature\<close> is timed 60 minutes before the bedtime. An entry for
  \<open>anxiety\<close> is timed with the hour offset \<open>-1\<close> and the minute offset \<open>+30\<close>, that is
  30 minutes before the bedtime (stated here for the bedtimes other than 00:30 to 00:59).
\<close>

theorem issue_recommendations:
  assumes "hour_field (bedtime p) = Inr h" and "minute_field (bedtime p) = Inr m"
    and "0 \<le> m" and "m < 60"
  shows "\<exists>b1 b2 rest.
           generate_ai_recommendations p analysis = Inr (b1 # b2 # rest) \<and>
           map ident rest =
             map (\<lambda>i. if i = ''anxiety'' then ''anxiety-relief'' else ''temperature-control'')
               (filter (\<lambda>i. i = ''anxiety'' \<or> i = ''temperature'') (sleepIssues p)) \<and>
           (\<forall>r \<in> set rest. ident r = ''temperature-control'' \<longrightarrow> time r = before h m 60) \<and>
           (h mod 24 \<noteq> 0 \<or> m < 30 \<longrightarrow>
              (\<forall>r \<in> set rest. ident r = ''anxiety-relief'' \<longrightarrow> time r = before h m 30))"
proof -
  from time_offset_total [OF assms(1,2)] obtain t1 where
    t1: "calculate_time_offset (bedtime p) (- 2) 0 = Inr t1" by blast
  from time_offset_total [OF assms(1,2)] obtain ta where
    ta: "calculate_time_offset (bedtime p) (- 1) 30 = Inr ta" by blast
  note tt = time_offset_hour_before [OF assms]
  define wd where "wd = \<lparr> ident = ''wind-down'', title = ''Wind-down Routine'',
      description = ''Begin relaxing activities 1-2 hours before bed'', time = t1,
      priority = ''high'', category = ''routine'' \<rparr>"
  define ds where "ds = \<lparr> ident = ''screen-cutoff'', title = ''Digital Sunset'',
      description = ''Turn off screens and blue light devices'', time = before h m 60,
      priority = ''high'', category = ''environment'' \<rparr>"
  from issue_loop_exact [OF ta tt, of "sleepIssues p" "[wd] @ [ds]"] obtain rest where
    rest: "issue_loop p (sleepIssues p) ([wd] @ [ds]) = Inr (([wd] @ [ds]) @ rest)"
      "map ident rest =
         map (\<lambda>i. if i = ''anxiety'' then ''anxiety-relief'' else ''temperature-control'')
           (filter (\<lambda>i. i = ''anxiety'' \<or> i = ''temperature'') (sleepIssues p))"
      "\<forall>r \<in> set rest. time r = (if ident r = ''anxiety-relief'' then ta else before h m 60)"
    by blast
  have g: "generate_ai_recommendations p analysis = Inr (wd # ds # rest)"
    using rest(1) by (simp add: generate_ai_recommendations_def t1 tt wd_def ds_def)
  have temp: "\<forall>r \<in> set rest. ident r = ''temperature-control'' \<longrightarrow> time r = before h m 60"
    using rest(3) by auto
  have anx: "h mod 24 \<noteq> 0 \<or> m < 30 \<longrightarrow>
      (\<forall>r \<in> set rest. ident r = ''anxiety-relief'' \<longrightarrow> time r = before h m 30)"
  proof
    assume "h mod 24 \<noteq> 0 \<or> m < 30"
    from time_offset_half_hour_before [OF assms this] ta have "ta = before h m 30" by simp
    with rest(3) show "\<forall>r \<in> set rest. ident r = ''anxiety-relief'' \<longrightarrow> time r = before h m 30"
      by auto
  qed
  from g rest(2) temp anx have "generate_ai_recommendations p analysis = Inr (wd # ds # rest) \<and>
      map ident rest =
        map (\<lambda>i. if i = ''anxiety'' then ''anxiety-relief'' else ''temperature-control'')
          (filter (\<lambda>i. i = ''anxiety'' \<or> i = ''temperature'') (sleepIssues p)) \<and>
      (\<forall>r \<in> set rest. ident r = ''temperature-control'' \<longrightarrow> time r = before h m 60) \<and>
      (h mod 24 \<noteq> 0 \<or> m < 30 \<longrightarrow>
         (\<forall>r \<in> set rest. ident r = ''anxiety-relief'' \<longrightarrow> time r = before h m 30))"
    apply (intro conjI)
       apply assumption
      apply assumption
     apply assumption
    apply assumption
    done
  then show ?thesis by (intro exI)
qed

theorem issue_recommendations_witness:
  "hour_field ''22:00'' = Inr 22 \<and> minute_field ''22:00'' = Inr 0 \<and>
   (\<exists>b1 b2 rest.
      generate_ai_recommendations
        \<lparr> bedtime = ''22:00'', wakeTime = ''06:00'', sleepGoal = PInt 8,
          lifestyle = ''moderate'', sleepIssues = [''anxiety'', ''xyz'', ''temperature''] \<rparr>
        \<lparr> sleep_duration = 8, sleep_debt = PInt 0, sleep_efficiency = PInt 100,
          circadian_alignment = 100 \<rparr> = Inr (b1 # b2 # rest) \<and>
      map (\<lambda>r. (ident r, time r)) rest =
        [(''anxiety-relief'', ''21:30''), (''temperature-control'', ''21:00'')])"
proof -
  define p where "p = \<lparr> bedtime = ''22:00'', wakeTime = ''06:00'', sleepGoal = PInt 8,
      lifestyle = ''moderate'', sleepIssues = [''anxiety'', ''xyz'', ''temperature''] \<rparr>"
  define a where "a = \<lparr> sleep_duration = 8, sleep_debt = PInt 0, sleep_efficiency = PInt 100,
      circadian_alignment = 100 \<rparr>"
  have hm: "hour_field ''22:00'' = Inr 22" "minute_field ''22:00'' = Inr 0"
    by code_simp+
  have h: "hour_field (bedtime p) = Inr 22" "minute_field (bedtime p) = Inr 0"
    by (simp_all add: p_def hm)
  have b: "before 22 0 30 = ''21:30''" "before 22 0 60 = ''21:00''"
    by code_simp+
  have r: "(0::int) \<le> 0" "(0::int) < 60" by simp_all
  from issue_recommendations [OF h r, of a] obtain b1 b2 rest where
    g: "generate_ai_recommendations p a = Inr (b1 # b2 # rest)"
    and i: "map ident rest =
         map (\<lambda>i. if i = ''anxiety'' then ''anxiety-relief'' else ''temperature-control'')
           (filter (\<lambda>i. i = ''anxiety'' \<or> i = ''temperature'') (sleepIssues p))"
    and t: "\<forall>r \<in> set rest. ident r = ''temperature-control'' \<longrightarrow> time r = before 22 0 60"
    and n: "22 mod 24 \<noteq> (0::int) \<or> (0::int) < 30 \<longrightarrow>
         (\<forall>r \<in> set rest. ident r = ''anxiety-relief'' \<longrightarrow> time r = before 22 0 30)"
    by auto
  from i have "map ident rest = [''anxiety-relief'', ''temperature-control'']"
    by (simp add: p_def)
  then obtain x y where xy: "rest = [x, y]" "ident x = ''anxiety-relief''"
    "ident y = ''temperature-control''"
    by (auto simp: map_eq_Cons_conv)
  from n xy have "time x = ''21:30''" by (simp add: b)
  moreover from t xy have "time y = ''21:00''" by (simp add: b)
  ultimately have mp: "map (\<lambda>r. (ident r, time r)) rest =
      [(''anxiety-relief'', ''21:30''), (''temperature-control'', ''21:00'')]"
    using xy by simp
  have e: "\<exists>b1 b2 rest. generate_ai_recommendations p a = Inr (b1 # b2 # rest) \<and>
      map (\<lambda>r. (ident r, time r)) rest =
        [(''anxiety-relief'', ''21:30''), (''temperature-control'', ''21:00'')]"
    by (intro exI conjI) (rule g, rule mp)
  from hm e show ?thesis
    unfolding p_def a_def
    apply (intro conjI)
      apply assumption
     apply assumption
    apply assumption
    done
qed

text \<open>
  Claim C3 as stated times the entry for \<open>anxiety\<close> one hour and thirty minutes before the
  bedtime, which is \<open>20:30\<close> for the bedtime \<open>22:00\<close>. The entry is timed \<open>21:30\<close>.
\<close>

theorem anxiety_time_counterexample:
  "before 22 0 90 = ''20:30'' \<and>
   generate_ai_recommendations
     \<lparr> bedtime = ''22:00'', wakeTime = ''06:00'', sleepGoal = PInt 8,
       lifestyle = ''moderate'', sleepIssues = [''anxiety''] \<rparr>
     \<lparr> sleep_duration = 8, sleep_debt = PInt 0, sleep_efficiency = PInt 100,
       circadian_alignment = 100 \<rparr> =
   Inr [\<lparr> ident = ''wind-down'', title = ''Wind-down Routine'',
          description = ''Begin relaxing activities 1-2 hours before bed'',
          time = ''20:00'', priority = ''high'', category = ''routine'' \<rparr>,
        \<lparr> ident = ''screen-cutoff'', title = ''Digital Sunset'',
          description = ''Turn off screens and blue light devices'',
          time = ''21:00'', priority = ''high'', category = ''environment'' \<rparr>,
        \<lparr> ident = ''anxiety-relief'', title = ''Anxiety Management'',
          description = ''Practice deep breathing or meditation'',
          time = ''21:30'', priority = ''high'', category = ''mental-health'' \<rparr>]"
proof -
  have b: "before 22 0 90 = ''20:30''"
    by code_simp
  have t2: "calculate_time_offset ''22:00'' (- 2) 0 = Inr ''20:00''"
    by code_simp
  have t1: "calculate_time_offset ''22:00'' (- 1) 0 = Inr ''21:00''"
    by code_simp
  have t3: "calculate_time_offset ''22:00'' (- 1) 30 = Inr ''21:30''"
    by code_simp
  show ?thesis
    by (simp add: generate_ai_recommendations_def t1 t2 t3 b)
qed

end
